theory Spec2Isabelle
  imports Complex_Main "HOL-Library.List_Lexorder" "HOL-Library.Log_Nat"
begin

section \<open>Python values\<close>

text \<open>
  A Python \<^verbatim>\<open>str\<close> is a sequence of Unicode code points, so a text is a list of
  natural numbers; \<open>S\<close> turns an ASCII literal into such a text.  Whitespace is the full
  set of \<^verbatim>\<open>str.isspace\<close>.

  \<open>lower\<close> stands for \<^verbatim>\<open>str.lower\<close> where the program only tests the lower-cased text
  against ASCII literals (a unit suffix, a column keyword, the header text, \<open>inf\<close> and
  \<open>nan\<close>): it lower-cases the ASCII letters and the two other characters whose lower case
  holds an ASCII letter (the Kelvin sign, 8490, and the capital I with a dot, 304) as
  \<^verbatim>\<open>str.lower\<close> does, and leaves every other character as it is, which no such test
  can tell from \<^verbatim>\<open>str.lower\<close>.  Where the program keeps the lower-cased text
  (\<^verbatim>\<open>normalize_text\<close>, and the names the cross-board rollup matches on) the lower case
  is the library's, the parameter \<open>str_lower\<close> below.
\<close>

type_synonym pystr = "nat list"

definition S :: "string \<Rightarrow> pystr" where
  "S s = map of_char s"

definition is_space :: "nat \<Rightarrow> bool" where
  "is_space c \<longleftrightarrow>
     (9 \<le> c \<and> c \<le> 13) \<or> (28 \<le> c \<and> c \<le> 32) \<or> c = 133 \<or> c = 160 \<or> c = 5760 \<or>
     (8192 \<le> c \<and> c \<le> 8202) \<or> c = 8232 \<or> c = 8233 \<or> c = 8239 \<or> c = 8287 \<or> c = 12288"

definition strip :: "pystr \<Rightarrow> pystr" where
  "strip s = rev (dropWhile is_space (rev (dropWhile is_space s)))"

definition lower_cp :: "nat \<Rightarrow> pystr" where
  "lower_cp c = (if 65 \<le> c \<and> c \<le> 90 then [c + 32] else if c = 8490 then [107]
                 else if c = 304 then [105, 775] else [c])"

definition lower :: "pystr \<Rightarrow> pystr" where
  "lower s = concat (map lower_cp s)"

definition startswith :: "pystr \<Rightarrow> pystr \<Rightarrow> bool" where
  "startswith s p \<longleftrightarrow> take (length p) s = p"

definition endswith :: "pystr \<Rightarrow> pystr \<Rightarrow> bool" where
  "endswith s p \<longleftrightarrow> length p \<le> length s \<and> drop (length s - length p) s = p"

text \<open>\<^verbatim>\<open>p in s\<close> on texts: \<open>p\<close> occurs as a contiguous block of \<open>s\<close>.\<close>

fun contains :: "pystr \<Rightarrow> pystr \<Rightarrow> bool" where
  "contains [] p = (p = [])"
| "contains (c # s) p = (startswith (c # s) p \<or> contains s p)"

section \<open>Floating-point numbers\<close>

text \<open>
  A Python \<^verbatim>\<open>float\<close> is a double: a finite value, an infinity or a NaN.  A finite
  value is represented by the rational number it is.  Every operation gives the double
  nearest to the exact result, a tie going to the even significand: \<open>rnd\<close> is that
  rounding of a rational number, to a multiple of the spacing \<open>ulp\<close> of the doubles
  around it (53 significant bits, and \<open>2 powi - 1074\<close> below \<open>2 powi - 1022\<close>), and
  \<open>fin\<close> is the float for an exact result, an infinity from \<open>2 ^ 1024 - 2 ^ 970\<close> on.
  The sign of zero is not represented.
\<close>

datatype pyfloat = Fin rat | PInf | NInf | NaN

definition DBL_LIMIT :: rat where
  "DBL_LIMIT = 2 ^ 1024 - 2 ^ 970"

text \<open>The binary exponent \<open>e\<close> of a number that is not zero: \<open>2 powi e \<le> \<bar>x\<bar> < 2 powi (e + 1)\<close>.\<close>

definition ilog2 :: "rat \<Rightarrow> int" where
  "ilog2 x = (let (n, d) = quotient_of \<bar>x\<bar>; e = bitlen n - bitlen d
              in if 2 powi e \<le> \<bar>x\<bar> then e else e - 1)"

text \<open>The nearest integer, a tie going to the even one.\<close>

definition round_half_even :: "rat \<Rightarrow> int" where
  "round_half_even a =
     (let f = \<lfloor>a\<rfloor>; r = a - of_int f in
      if r < 1 / 2 then f else if 1 / 2 < r then f + 1 else if even f then f else f + 1)"

definition ulp :: "rat \<Rightarrow> rat" where
  "ulp x = 2 powi (max (ilog2 x) (- 1022) - 52)"

definition rnd :: "rat \<Rightarrow> rat" where
  "rnd x = (if x = 0 then 0 else of_int (round_half_even (x / ulp x)) * ulp x)"

definition fin :: "rat \<Rightarrow> pyfloat" where
  "fin x = (if DBL_LIMIT \<le> x then PInf else if x \<le> - DBL_LIMIT then NInf else Fin (rnd x))"

fun fsign :: "pyfloat \<Rightarrow> int" where
  "fsign (Fin a) = (if a < 0 then - 1 else if a = 0 then 0 else 1)"
| "fsign PInf = 1"
| "fsign NInf = - 1"
| "fsign NaN = 0"

definition fmul :: "pyfloat \<Rightarrow> pyfloat \<Rightarrow> pyfloat" where
  "fmul x y =
     (case (x, y) of
        (Fin a, Fin b) \<Rightarrow> fin (a * b)
      | _ \<Rightarrow> if x = NaN \<or> y = NaN then NaN
             else if 0 < fsign x * fsign y then PInf
             else if fsign x * fsign y < 0 then NInf else NaN)"

fun fneg :: "pyfloat \<Rightarrow> pyfloat" where
  "fneg (Fin a) = Fin (- a)"
| "fneg PInf = NInf"
| "fneg NInf = PInf"
| "fneg NaN = NaN"

definition fadd :: "pyfloat \<Rightarrow> pyfloat \<Rightarrow> pyfloat" where
  "fadd x y =
     (case (x, y) of
        (Fin a, Fin b) \<Rightarrow> fin (a + b)
      | _ \<Rightarrow> if x = NaN \<or> y = NaN then NaN
             else if (x = PInf \<and> y = NInf) \<or> (x = NInf \<and> y = PInf) then NaN
             else if x = PInf \<or> y = PInf then PInf else NInf)"

definition fsub :: "pyfloat \<Rightarrow> pyfloat \<Rightarrow> pyfloat" where
  "fsub x y = fadd x (fneg y)"

text \<open>Comparisons: every comparison with a NaN is false.\<close>

fun flt :: "pyfloat \<Rightarrow> pyfloat \<Rightarrow> bool" where
  "flt NaN _ = False"
| "flt _ NaN = False"
| "flt (Fin a) (Fin b) = (a < b)"
| "flt PInf _ = False"
| "flt _ PInf = True"
| "flt NInf (Fin b) = True"
| "flt _ NInf = False"

definition feq :: "pyfloat \<Rightarrow> pyfloat \<Rightarrow> bool" where
  "feq x y \<longleftrightarrow> x \<noteq> NaN \<and> x = y"

definition fle :: "pyfloat \<Rightarrow> pyfloat \<Rightarrow> bool" where
  "fle x y \<longleftrightarrow> flt x y \<or> feq x y"

text \<open>Truth value of a float: only zero is false.\<close>

definition truthy :: "pyfloat \<Rightarrow> bool" where
  "truthy x \<longleftrightarrow> x \<noteq> Fin 0"

text \<open>\<^verbatim>\<open>max(a, b)\<close> keeps its first argument unless the second is greater.\<close>

definition py_max :: "pyfloat \<Rightarrow> pyfloat \<Rightarrow> pyfloat" where
  "py_max a b = (if flt a b then b else a)"

section \<open>Raw values, JSON values and the library functions\<close>

text \<open>
  The values \<^verbatim>\<open>normalize_revenue\<close> distinguishes: \<^verbatim>\<open>None\<close>, a text, an integer
  (a \<^verbatim>\<open>bool\<close> is the integer 0 or 1) and a float.
\<close>

datatype pyval = VNone | VStr pystr | VInt int | VFloat pyfloat

datatype json = JNull | JBool bool | JInt int | JFloat pyfloat | JStr pystr
  | JList "json list" | JDict "(pystr \<times> json) list"

datatype pyerr = OverflowError | TypeError

text \<open>A calendar moment: a date and the time elapsed within its day.\<close>

record timestamp =
  year :: int
  month :: int
  day :: int
  tod :: nat

text \<open>
  Functions of Python's standard library and of pandas that the program calls and that
  are not part of this repository are parameters of the model:
  \<^item> \<open>json_loads\<close> is \<^verbatim>\<open>json.loads\<close>, \<open>None\<close> when it raises;
  \<^item> \<open>py_str\<close> is \<^verbatim>\<open>str\<close> on a parsed JSON value;
  \<^item> \<open>strptime_iso text fmt\<close> is \<^verbatim>\<open>datetime.strptime(text, fmt).strftime("%Y-%m-%d")\<close>,
    \<open>None\<close> when \<^verbatim>\<open>strptime\<close> raises \<^verbatim>\<open>ValueError\<close>;
  \<^item> \<open>to_datetime\<close> is \<^verbatim>\<open>pd.to_datetime(..., errors="coerce")\<close> on one cell, \<open>None\<close> being
    \<^verbatim>\<open>NaT\<close>;
  \<^item> \<open>fmt_2f\<close>, \<open>fmt_1f\<close>, \<open>fmt_grouped\<close> and \<open>fmt_num\<close> render a number with the
    format specifications \<^verbatim>\<open>.2f\<close>, \<^verbatim>\<open>.1f\<close>, \<^verbatim>\<open>,.0f\<close> and with none;
  \<^item> \<open>str_title\<close> is \<^verbatim>\<open>str.title\<close> and \<open>period_M\<close> renders the month of a timestamp
    (\<^verbatim>\<open>dt.to_period("M").astype(str)\<close>);
  \<^item> \<open>sort_values_desc\<close> is \<^verbatim>\<open>Series.sort_values(ascending=False)\<close> on the pairs of an
    index entry and its value;
  \<^item> \<open>str_lower\<close> is \<^verbatim>\<open>str.lower\<close>, and \<open>unicode_decimal c\<close> is the value of the
    character \<open>c\<close> as a decimal digit, \<open>None\<close> when it is none: both read the Unicode
    database of the interpreter;
  \<^item> \<open>series_sum\<close> is the sum numpy computes for a column without missing values
    (\<^verbatim>\<open>ndarray.sum\<close>), and \<open>group_sum\<close> the sum pandas computes for the values of one
    group of a \<^verbatim>\<open>groupby\<close>, which skips the missing ones: the order in which they add
    is theirs;
  \<^item> \<open>round_float64\<close> is \<^verbatim>\<open>round(x, 1)\<close> on a \<^verbatim>\<open>numpy.float64\<close>.
\<close>

record pylib =
  json_loads :: "pystr \<Rightarrow> json option"
  py_str :: "json \<Rightarrow> pystr"
  strptime_iso :: "pystr \<Rightarrow> pystr \<Rightarrow> pystr option"
  to_datetime :: "pystr option \<Rightarrow> timestamp option"
  fmt_2f :: "pyfloat \<Rightarrow> pystr"
  fmt_1f :: "pyfloat \<Rightarrow> pystr"
  fmt_grouped :: "pyfloat \<Rightarrow> pystr"
  fmt_num :: "pyfloat \<Rightarrow> pystr"
  str_title :: "pystr \<Rightarrow> pystr"
  period_M :: "timestamp \<Rightarrow> pystr"
  sort_values_desc :: "(pystr \<times> pyfloat) list \<Rightarrow> (pystr \<times> pyfloat) list"
  str_lower :: "pystr \<Rightarrow> pystr"
  unicode_decimal :: "nat \<Rightarrow> nat option"
  series_sum :: "pyfloat list \<Rightarrow> pyfloat"
  group_sum :: "pyfloat list \<Rightarrow> pyfloat"
  round_float64 :: "pyfloat \<Rightarrow> pyfloat"

text \<open>
  \<^verbatim>\<open>float(n)\<close> on an integer is the nearest double, and raises \<^verbatim>\<open>OverflowError\<close>
  beyond the doubles.
\<close>

definition float_of_int :: "int \<Rightarrow> pyerr + pyfloat" where
  "float_of_int n =
     (if DBL_LIMIT \<le> \<bar>of_int n\<bar> then Inl OverflowError else Inr (Fin (rnd (of_int n))))"

subsection \<open>\<^verbatim>\<open>float(text)\<close>\<close>

text \<open>
  \<^verbatim>\<open>float\<close> first turns the text into ASCII: a character below 127 stays, a whitespace
  character becomes a space, a decimal digit of any script becomes the ASCII digit of its
  value, and any other character becomes a question mark, which no number holds.  Then
  it strips the ASCII whitespace at both ends.
\<close>

definition to_ascii :: "pylib \<Rightarrow> nat \<Rightarrow> nat" where
  "to_ascii L c =
     (if c < 127 then c else if is_space c then 32
      else case unicode_decimal L c of Some d \<Rightarrow> 48 + d | None \<Rightarrow> 63)"

definition is_ascii_space :: "nat \<Rightarrow> bool" where
  "is_ascii_space c \<longleftrightarrow> c = 32 \<or> (9 \<le> c \<and> c \<le> 13)"

definition ascii_strip :: "pystr \<Rightarrow> pystr" where
  "ascii_strip s = rev (dropWhile is_ascii_space (rev (dropWhile is_ascii_space s)))"

definition is_digit :: "nat \<Rightarrow> bool" where
  "is_digit c \<longleftrightarrow> 48 \<le> c \<and> c \<le> 57"

text \<open>
  Underscores may stand between digits only: each one follows a digit and is followed
  by a digit.  \<open>prev\<close> is the character before, 0 at the start.
\<close>

fun drop_underscores :: "nat \<Rightarrow> pystr \<Rightarrow> pystr option" where
  "drop_underscores prev [] = (if prev = 95 then None else Some [])"
| "drop_underscores prev (c # cs) =
     (if c = 95 then (if is_digit prev then drop_underscores c cs else None)
      else if prev = 95 \<and> \<not> is_digit c then None
      else map_option ((#) c) (drop_underscores c cs))"

definition digits_val :: "pystr \<Rightarrow> nat" where
  "digits_val ds = foldl (\<lambda>a d. 10 * a + (d - 48)) 0 ds"

definition pow10 :: "int \<Rightarrow> rat" where
  "pow10 e = (if 0 \<le> e then 10 ^ nat e else 1 / 10 ^ nat (- e))"

text \<open>The exponent part: empty, or \<open>e\<close>/\<open>E\<close>, an optional sign and at least one digit.\<close>

definition parse_exponent :: "pystr \<Rightarrow> int option" where
  "parse_exponent t =
     (case t of
        [] \<Rightarrow> Some 0
      | c # r \<Rightarrow>
          if c = 101 \<or> c = 69 then
            (let (neg, ds) = (case r of [] \<Rightarrow> (False, [])
                              | d # r' \<Rightarrow> if d = 45 then (True, r') else if d = 43 then (False, r')
                                          else (False, r))
             in if ds \<noteq> [] \<and> list_all is_digit ds
                then Some (if neg then - int (digits_val ds) else int (digits_val ds))
                else None)
          else None)"

text \<open>
  An unsigned decimal: digits, an optional point and digits, at least one digit in all.
  The value is exact; \<open>py_float\<close> rounds it.
\<close>

definition parse_decimal :: "pystr \<Rightarrow> rat option" where
  "parse_decimal t =
     (let ip = takeWhile is_digit t; r1 = dropWhile is_digit t;
          (fp, r2) = (case r1 of [] \<Rightarrow> ([], [])
                      | c # r \<Rightarrow> if c = 46 then (takeWhile is_digit r, dropWhile is_digit r)
                                 else ([], r1))
      in if ip = [] \<and> fp = [] then None
         else case parse_exponent r2 of
                None \<Rightarrow> None
              | Some e \<Rightarrow> Some (of_nat (digits_val (ip @ fp)) / 10 ^ length fp * pow10 e))"

definition py_float :: "pylib \<Rightarrow> pystr \<Rightarrow> pyfloat option" where
  "py_float L text =
     (case drop_underscores 0 (ascii_strip (map (to_ascii L) text)) of
        None \<Rightarrow> None
      | Some t \<Rightarrow>
          (let (neg, u) = (case t of [] \<Rightarrow> (False, [])
                           | c # r \<Rightarrow> if c = 45 then (True, r) else if c = 43 then (False, r)
                                      else (False, t))
           in if lower u = S ''inf'' \<or> lower u = S ''infinity'' then Some (if neg then NInf else PInf)
              else if lower u = S ''nan'' then Some NaN
              else case parse_decimal u of
                     None \<Rightarrow> None
                   | Some x \<Rightarrow> Some (fin (if neg then - x else x))))"

section \<open>The amount normaliser (data\_cleaner.py)\<close>

text \<open>
  The first substitution removes, scanning from the left, every match of
  the pattern \<^verbatim>\<open>(?i)(rs\.?|inr|usd|eur|...)\<close>, whose last four alternatives are the
  pound sign (code point 163), the euro sign (8364), the dollar sign (36) and the rupee
  sign (8377); \<open>currency_match\<close> is the length of the match that starts at the head of
  the text, 0 when there is none.
\<close>

text \<open>
  A character of the text matches a lower-case letter of the pattern without regard to
  case when it is the letter, its capital, or one of the letters the \<^verbatim>\<open>re\<close> module
  treats as the same: the long s (383) for \<open>s\<close>, the dotted capital I (304) and the
  dotless i (305) for \<open>i\<close>, the Kelvin sign (8490) for \<open>k\<close>.
\<close>

definition ci_eq :: "nat \<Rightarrow> nat \<Rightarrow> bool" where
  "ci_eq p c \<longleftrightarrow> c = p \<or> (65 \<le> c \<and> c \<le> 90 \<and> c + 32 = p) \<or> (p = 115 \<and> c = 383) \<or>
     (p = 105 \<and> (c = 304 \<or> c = 305)) \<or> (p = 107 \<and> c = 8490)"

definition ci_prefix :: "pystr \<Rightarrow> pystr \<Rightarrow> bool" where
  "ci_prefix p t \<longleftrightarrow> list_all2 ci_eq p (take (length p) t)"

definition currency_match :: "pystr \<Rightarrow> nat" where
  "currency_match t =
     (if ci_prefix (S ''rs'') t then (if startswith (drop 2 t) (S ''.'') then 3 else 2)
      else if ci_prefix (S ''inr'') t then 3
      else if ci_prefix (S ''usd'') t then 3
      else if ci_prefix (S ''eur'') t then 3
      else if t \<noteq> [] \<and> hd t \<in> {163, 8364, 36, 8377} then 1
      else 0)"

function strip_currency :: "pystr \<Rightarrow> pystr" where
  "strip_currency [] = []"
| "strip_currency (c # t) =
     (if currency_match (c # t) = 0 then c # strip_currency t
      else strip_currency (drop (currency_match (c # t) - 1) t))"
  by pat_completeness auto
termination
  by (relation "measure length") auto

text \<open>The second substitution removes every comma and every whitespace character.\<close>

definition strip_separators :: "pystr \<Rightarrow> pystr" where
  "strip_separators t = filter (\<lambda>c. c \<noteq> 44 \<and> \<not> is_space c) t"

definition dict_get :: "(pystr \<times> json) list \<Rightarrow> pystr \<Rightarrow> json \<Rightarrow> json" where
  "dict_get d k dflt = (case map_of d k of None \<Rightarrow> dflt | Some v \<Rightarrow> v)"

text \<open>
  The JSON step of \<^verbatim>\<open>normalize_revenue\<close>: \<open>Inl x\<close> is the early \<^verbatim>\<open>return float(parsed)\<close>,
  \<open>Inr text\<close> the text to go on with.  Every exception inside the \<^verbatim>\<open>try\<close> leaves the text
  as it was.
\<close>

definition revenue_json :: "pylib \<Rightarrow> pystr \<Rightarrow> pyfloat + pystr" where
  "revenue_json L text =
     (if startswith text (S ''{'') \<or> startswith text [34] then
        (case json_loads L text of
           None \<Rightarrow> Inr text
         | Some (JDict d) \<Rightarrow> Inr (py_str L (dict_get d (S ''value'') (dict_get d (S ''text'') (JStr []))))
         | Some (JInt n) \<Rightarrow> (case float_of_int n of Inl e \<Rightarrow> Inr text | Inr x \<Rightarrow> Inl x)
         | Some (JBool b) \<Rightarrow> Inl (Fin (if b then 1 else 0))
         | Some (JFloat x) \<Rightarrow> Inl x
         | Some _ \<Rightarrow> Inr text)
      else Inr text)"

text \<open>The unit suffix: \<open>cr\<close> before \<open>l\<close> before \<open>k\<close>, each without regard to case.\<close>

definition split_suffix :: "pystr \<Rightarrow> pyfloat \<times> pystr" where
  "split_suffix text =
     (if endswith (lower text) (S ''cr'') then (Fin 10000000, take (length text - 2) text)
      else if endswith (lower text) (S ''l'') then (Fin 100000, take (length text - 1) text)
      else if endswith (lower text) (S ''k'') then (Fin 1000, take (length text - 1) text)
      else (Fin 1, text))"

definition revenue_of_text :: "pylib \<Rightarrow> pystr \<Rightarrow> pyfloat" where
  "revenue_of_text L s =
     (case revenue_json L (strip s) of
        Inl x \<Rightarrow> x
      | Inr text \<Rightarrow>
          (let (multiplier, t) = split_suffix (strip_separators (strip_currency text))
           in case py_float L t of None \<Rightarrow> Fin 0 | Some x \<Rightarrow> fmul x multiplier))"

definition normalize_revenue :: "pylib \<Rightarrow> pyval \<Rightarrow> pyerr + pyfloat" where
  "normalize_revenue L v =
     (case v of
        VNone \<Rightarrow> Inr (Fin 0)
      | VStr s \<Rightarrow> if s = [] then Inr (Fin 0) else Inr (revenue_of_text L s)
      | VInt n \<Rightarrow> float_of_int n
      | VFloat x \<Rightarrow> if x = NaN then Inr (Fin 0) else Inr x)"

section \<open>Text normalisation and deal status (data\_cleaner.py)\<close>

text \<open>
  \<^verbatim>\<open>normalize_text\<close>: a falsy value (here the empty text) gives the empty text,
  anything else is stripped and lower-cased.
\<close>

definition normalize_text :: "pylib \<Rightarrow> pystr \<Rightarrow> pystr" where
  "normalize_text L v = (if v = [] then [] else str_lower L (strip v))"

definition DEAD_STAGES :: "pystr set" where
  "DEAD_STAGES = {S ''n. not relevant at the moment'', S ''o. not relevant at all'',
     S ''l. project lost'', S ''m. projects on hold''}"

definition WON_STAGES :: "pystr set" where
  "WON_STAGES = {S ''h. work order received'', S ''project completed'', S ''k. amount accrued'',
     S ''g. project won'', S ''j. invoice sent'', S ''i. poc''}"

definition OPEN_STAGES :: "pystr set" where
  "OPEN_STAGES = {S ''a. lead generated'', S ''b. sales qualified leads'', S ''c. demo done'',
     S ''d. feasibility'', S ''e. proposal/commercials sent'', S ''f. negotiations''}"

definition map_deal_status :: "pylib \<Rightarrow> pystr \<Rightarrow> pystr \<Rightarrow> pystr" where
  "map_deal_status L status stage =
     (let s = normalize_text L status; st = normalize_text L stage in
      if s = S ''won'' then S ''Won''
      else if s = S ''dead'' then S ''Dead''
      else if s = S ''on hold'' then S ''On Hold''
      else if st \<in> WON_STAGES then S ''Won''
      else if st \<in> DEAD_STAGES then S ''Dead''
      else if st \<in> OPEN_STAGES then S ''Open''
      else S ''Open'')"

section \<open>Dates (data\_cleaner.py)\<close>

definition json_truthy :: "json \<Rightarrow> bool" where
  "json_truthy j =
     (case j of JNull \<Rightarrow> False | JBool b \<Rightarrow> b | JInt n \<Rightarrow> n \<noteq> 0 | JFloat x \<Rightarrow> truthy x
      | JStr t \<Rightarrow> t \<noteq> [] | JList l \<Rightarrow> l \<noteq> [] | JDict d \<Rightarrow> d \<noteq> [])"

definition FORMATS :: "pystr list" where
  "FORMATS = [S ''%Y-%m-%d'', S ''%d/%m/%Y'', S ''%m/%d/%Y'', S ''%d-%m-%Y'', S ''%d %b %Y'',
     S ''%B %d, %Y'', S ''%d %B %Y'', S ''%Y/%m/%d'']"

text \<open>The loop over the formats: the first format that parses gives the result.\<close>

fun try_formats :: "pylib \<Rightarrow> pystr \<Rightarrow> pystr list \<Rightarrow> pystr option" where
  "try_formats L text [] = None"
| "try_formats L text (fmt # fmts) =
     (case strptime_iso L text fmt of Some d \<Rightarrow> Some d | None \<Rightarrow> try_formats L text fmts)"

text \<open>
  \<^verbatim>\<open>normalize_date\<close>.  When the text is a JSON object, the text to parse becomes its
  \<^verbatim>\<open>date\<close> entry, whatever that is: a false one gives \<^verbatim>\<open>None\<close>, a text is parsed, and
  any other value makes \<^verbatim>\<open>strptime\<close> raise \<^verbatim>\<open>TypeError\<close>, which the loop does not
  catch.  A parsed value that is no object has no \<^verbatim>\<open>get\<close>: the exception is caught and
  the text stays.
\<close>

definition normalize_date :: "pylib \<Rightarrow> pystr \<Rightarrow> pyerr + pystr option" where
  "normalize_date L v =
     (if v = [] then Inr None
      else let text = strip v in
        if startswith text (S ''{'') then
          (case json_loads L text of
             Some (JDict d) \<Rightarrow>
               (let t = dict_get d (S ''date'') (JStr []) in
                if \<not> json_truthy t then Inr None
                else case t of JStr t' \<Rightarrow> Inr (try_formats L t' FORMATS) | _ \<Rightarrow> Inl TypeError)
           | _ \<Rightarrow> Inr (try_formats L text FORMATS))
        else Inr (try_formats L text FORMATS))"

section \<open>Column resolution (data\_cleaner.py)\<close>

text \<open>
  A raw item is a dictionary from column identifiers (and the key \<^verbatim>\<open>_item_name\<close>) to texts:
  \<^verbatim>\<open>get_board_items\<close> stores \<^verbatim>\<open>cv.get("text") or cv.get("value") or ""\<close> for a column and
  the name of the item.  The columns of a schema are the pairs of a column identifier and
  its title, in the order of the schema.
\<close>

type_synonym item = "pystr \<rightharpoonup> pystr"
type_synonym columns = "(pystr \<times> pystr) list"

definition item_get :: "item \<Rightarrow> pystr \<Rightarrow> pystr" where
  "item_get it k = (case it k of None \<Rightarrow> [] | Some v \<Rightarrow> v)"

fun find_column_lower :: "item \<Rightarrow> columns \<Rightarrow> pystr list \<Rightarrow> pystr" where
  "find_column_lower it [] kw_lower = []"
| "find_column_lower it ((col_id, col_title) # cols) kw_lower =
     (if list_ex (\<lambda>kw. contains (lower col_title) kw) kw_lower then item_get it col_id
      else find_column_lower it cols kw_lower)"

definition find_column :: "item \<Rightarrow> columns \<Rightarrow> pystr list \<Rightarrow> pystr" where
  "find_column it schema_columns keywords = find_column_lower it schema_columns (map lower keywords)"

section \<open>The record builders (data\_cleaner.py)\<close>

record deal =
  deal_name :: pystr
  owner_code :: pystr
  client_code :: pystr
  status :: pystr
  stage :: pystr
  sector :: pystr
  deal_value :: pyfloat
  probability :: pyfloat
  weighted_value :: pyfloat
  close_date :: "timestamp option"
  created_date :: "timestamp option"
  product :: pystr

text \<open>
  The fields of a work order; \<open>wo_sector\<close> and \<open>wo_owner_code\<close> are its \<^verbatim>\<open>sector\<close> and
  \<^verbatim>\<open>owner_code\<close>.
\<close>

record workorder =
  wo_name :: pystr
  deal_name_linked :: pystr
  wo_sector :: pystr
  exec_status :: pystr
  is_active :: bool
  amount_excl_gst :: pyfloat
  billed_excl_gst :: pyfloat
  unbilled_amount :: pyfloat
  wo_status :: pystr
  nature_of_work :: pystr
  wo_owner_code :: pystr
  start_date :: "timestamp option"
  end_date :: "timestamp option"

definition ebind :: "'e + 'a \<Rightarrow> ('a \<Rightarrow> 'e + 'b) \<Rightarrow> 'e + 'b" where
  "ebind m f = (case m of Inl e \<Rightarrow> Inl e | Inr x \<Rightarrow> f x)"

text \<open>The probabilities 0.80, 0.50, 0.25 and 0.0; 0.80 is the double nearest to 4/5.\<close>

definition PROBABILITY_MAP :: "pystr \<rightharpoonup> pyfloat" where
  "PROBABILITY_MAP = [S ''high'' \<mapsto> Fin (rnd (4 / 5)), S ''medium'' \<mapsto> Fin (1 / 2),
     S ''low'' \<mapsto> Fin (1 / 4), [] \<mapsto> Fin 0]"

text \<open>\<^verbatim>\<open>a or b\<close> on optional texts: \<^verbatim>\<open>None\<close> and the empty text are false.\<close>

definition date_truthy :: "pystr option \<Rightarrow> bool" where
  "date_truthy d \<longleftrightarrow> d \<noteq> None \<and> d \<noteq> Some []"

definition text_or :: "pystr \<Rightarrow> pystr \<Rightarrow> pystr" where
  "text_or a b = (if a \<noteq> [] then a else b)"

text \<open>
  One turn of the loop of \<^verbatim>\<open>clean_deals_df\<close>: \<open>Inr None\<close> is the \<^verbatim>\<open>continue\<close> of a
  skipped item, \<open>Inr (Some r)\<close> the record appended, \<open>Inl e\<close> an exception.  The dates
  are given as the final data frame holds them, after \<^verbatim>\<open>pd.to_datetime\<close>.
\<close>

definition build_deal :: "pylib \<Rightarrow> columns \<Rightarrow> item \<Rightarrow> pyerr + deal option" where
  "build_deal L cols it =
     (let name = strip (item_get it (S ''_item_name'')) in
      if name = [] \<or> lower name \<in> {S ''deal name'', []} then Inr None
      else
        let status_raw = find_column it cols [S ''status'', S ''deal status''];
            stage_raw = find_column it cols [S ''stage'', S ''deal stage''];
            sector_raw = find_column it cols [S ''sector'', S ''service''];
            value_raw = find_column it cols [S ''value'', S ''deal value'', S ''masked''];
            close_date_raw = find_column it cols [S ''close date'', S ''actual close'', S ''close date (a)''];
            tentative_date_raw = find_column it cols [S ''tentative'', S ''expected close''];
            probability_raw = find_column it cols [S ''probability'', S ''closure''];
            owner_raw = find_column it cols [S ''owner'', S ''personnel''];
            client_raw = find_column it cols [S ''client'', S ''company''];
            product_raw = find_column it cols [S ''product''];
            created_raw = find_column it cols [S ''created'', S ''creation''];
            canonical_status = map_deal_status L status_raw stage_raw
        in ebind (normalize_revenue L (VStr value_raw)) (\<lambda>revenue.
           let prob = (case PROBABILITY_MAP (normalize_text L probability_raw) of
                         None \<Rightarrow> Fin 0 | Some p \<Rightarrow> p);
               sec = text_or (normalize_text L sector_raw) (S ''unknown'')
           in ebind (normalize_date L close_date_raw) (\<lambda>d1.
              ebind (if date_truthy d1 then Inr d1 else normalize_date L tentative_date_raw) (\<lambda>cd.
              ebind (normalize_date L created_raw) (\<lambda>created.
                Inr (Some \<lparr> deal_name = name,
                  owner_code = strip owner_raw,
                  client_code = strip client_raw,
                  status = canonical_status,
                  stage = normalize_text L stage_raw,
                  sector = sec,
                  deal_value = revenue,
                  probability = prob,
                  weighted_value = fmul revenue prob,
                  close_date = to_datetime L cd,
                  created_date = to_datetime L created,
                  product = strip product_raw \<rparr>))))))"

text \<open>The loop: the records of the items kept, in order; the first exception ends it.\<close>

fun collect :: "('i \<Rightarrow> pyerr + 'r option) \<Rightarrow> 'i list \<Rightarrow> pyerr + 'r list" where
  "collect f [] = Inr []"
| "collect f (it # its) =
     (case f it of
        Inl e \<Rightarrow> Inl e
      | Inr None \<Rightarrow> collect f its
      | Inr (Some r) \<Rightarrow> (case collect f its of Inl e \<Rightarrow> Inl e | Inr rs \<Rightarrow> Inr (r # rs)))"

text \<open>
  A data frame is the list of its rows; it is \<^verbatim>\<open>empty\<close> when it has no row.  The schema
  is given by its \<^verbatim>\<open>columns\<close> entry.
\<close>

definition clean_deals_df :: "pylib \<Rightarrow> item list \<Rightarrow> columns \<Rightarrow> pyerr + deal list" where
  "clean_deals_df L raw_items cols = (if raw_items = [] then Inr [] else collect (build_deal L cols) raw_items)"

definition exec_status_clean :: "pystr \<Rightarrow> pystr" where
  "exec_status_clean es =
     (if contains es (S ''completed'') then S ''Completed''
      else if contains es (S ''ongoing'') \<or> contains es (S ''executed until'') then S ''Ongoing''
      else if contains es (S ''not started'') then S ''Not Started''
      else if contains es (S ''pause'') \<or> contains es (S ''struck'') then S ''Paused''
      else if contains es (S ''partial'') then S ''Partially Completed''
      else if contains es (S ''pending'') \<or> contains es (S ''details pending'') then S ''Pending''
      else S ''Unknown'')"

text \<open>
  One turn of the loop of \<^verbatim>\<open>clean_workorders_df\<close>.  The loop also resolves an invoice
  column, whose value it does not use.
\<close>

definition build_workorder :: "pylib \<Rightarrow> columns \<Rightarrow> item \<Rightarrow> pyerr + workorder option" where
  "build_workorder L cols it =
     (let name = strip (item_get it (S ''_item_name'')) in
      if name = [] then Inr None
      else
        let deal_name_raw = find_column it cols [S ''deal name'', S ''deal''];
            exec_status_raw = find_column it cols [S ''execution status'', S ''exec status'', S ''status''];
            sector_raw = find_column it cols [S ''sector''];
            amount_excl_raw = find_column it cols [S ''amount in rupees (excl'', S ''excl of gst'', S ''excl. of gst''];
            amount_incl_raw = find_column it cols [S ''amount in rupees (incl'', S ''incl of gst''];
            billed_excl_raw = find_column it cols [S ''billed value in rupees (excl'', S ''billed value''];
            wo_status_raw = find_column it cols [S ''wo status'', S ''billing status'', S ''collection status''];
            start_date_raw = find_column it cols [S ''probable start'', S ''start date'', S ''date of po''];
            end_date_raw = find_column it cols [S ''probable end'', S ''end date'', S ''delivery date''];
            nature_raw = find_column it cols [S ''nature of work'', S ''nature''];
            owner_raw = find_column it cols [S ''bd/kam'', S ''owner'', S ''personnel'']
        in ebind (normalize_revenue L (VStr amount_excl_raw)) (\<lambda>a1.
           ebind (if truthy a1 then Inr a1 else normalize_revenue L (VStr amount_incl_raw)) (\<lambda>amount.
           ebind (normalize_revenue L (VStr billed_excl_raw)) (\<lambda>billed.
           let es = exec_status_clean (normalize_text L exec_status_raw);
               sec = text_or (normalize_text L sector_raw) (S ''unknown'')
           in ebind (normalize_date L start_date_raw) (\<lambda>sd.
              ebind (normalize_date L end_date_raw) (\<lambda>ed.
                Inr (Some \<lparr> wo_name = name,
                  deal_name_linked = (if deal_name_raw \<noteq> [] then strip deal_name_raw else name),
                  wo_sector = sec,
                  exec_status = es,
                  is_active = (es \<in> {S ''Ongoing'', S ''Not Started'', S ''Paused'',
                                      S ''Partially Completed'', S ''Pending''}),
                  amount_excl_gst = amount,
                  billed_excl_gst = billed,
                  unbilled_amount = py_max (Fin 0) (fsub amount billed),
                  wo_status = normalize_text L wo_status_raw,
                  nature_of_work = strip nature_raw,
                  wo_owner_code = strip owner_raw,
                  start_date = to_datetime L sd,
                  end_date = to_datetime L ed \<rparr>)))))))"

definition clean_workorders_df :: "pylib \<Rightarrow> item list \<Rightarrow> columns \<Rightarrow> pyerr + workorder list" where
  "clean_workorders_df L raw_items cols =
     (if raw_items = [] then Inr [] else collect (build_workorder L cols) raw_items)"

section \<open>Numbers in the analytics (analytics.py)\<close>

text \<open>
  Division of floats where it does not raise (numpy's, or Python's by a divisor that is
  not zero).  A zero divisor counts as positive.
\<close>

definition fdiv :: "pyfloat \<Rightarrow> pyfloat \<Rightarrow> pyfloat" where
  "fdiv x y =
     (case (x, y) of
        (Fin a, Fin b) \<Rightarrow>
          if b = 0 then (if a = 0 then NaN else if 0 < a then PInf else NInf) else fin (a / b)
      | _ \<Rightarrow> if x = NaN \<or> y = NaN then NaN
             else if y = PInf \<or> y = NInf then (if x = PInf \<or> x = NInf then NaN else Fin 0)
             else if (x = PInf) = (0 \<le> fsign y) then PInf else NInf)"

text \<open>
  \<^verbatim>\<open>round(x, 1)\<close> on a Python float: the value of the double is rounded to one decimal,
  a tie going to the even digit, and the result is the double nearest to that decimal;
  infinities and NaN stay.
\<close>

fun round1 :: "pyfloat \<Rightarrow> pyfloat" where
  "round1 (Fin a) = fin (of_int (round_half_even (a * 10)) / 10)"
| "round1 x = x"

text \<open>
  \<^verbatim>\<open>Series.round(1)\<close> is numpy's: the number is multiplied by 10, rounded to an integer
  (\<^verbatim>\<open>rint\<close>) and divided by 10, each step a float operation.
\<close>

fun rint :: "pyfloat \<Rightarrow> pyfloat" where
  "rint (Fin a) = Fin (of_int (round_half_even a))"
| "rint x = x"

definition series_round1 :: "pyfloat \<Rightarrow> pyfloat" where
  "series_round1 x = fdiv (rint (fmul x (Fin 10))) (Fin 10)"

text \<open>A number that is an \<^verbatim>\<open>int\<close> or a \<^verbatim>\<open>float\<close>, and its value in comparisons.\<close>

datatype num = Whole int | Flt pyfloat

fun num_val :: "num \<Rightarrow> pyfloat" where
  "num_val (Whole i) = Fin (of_int i)"
| "num_val (Flt x) = x"

text \<open>\<^verbatim>\<open>fillna(0)\<close> on a number.\<close>

definition fillna0 :: "pyfloat \<Rightarrow> pyfloat" where
  "fillna0 x = (if x = NaN then Fin 0 else x)"

text \<open>\<^verbatim>\<open>Series.sum()\<close>: the missing values (NaN) are replaced by 0 and the column is summed.\<close>

definition pd_sum :: "pylib \<Rightarrow> pyfloat list \<Rightarrow> pyfloat" where
  "pd_sum L xs = series_sum L (map fillna0 xs)"

text \<open>\<^verbatim>\<open>groupby(key)[val].sum()\<close>: one entry for each key, the keys in ascending order.\<close>

definition groupby_sum ::
    "pylib \<Rightarrow> ('r \<Rightarrow> pystr) \<Rightarrow> ('r \<Rightarrow> pyfloat) \<Rightarrow> 'r list \<Rightarrow> (pystr \<times> pyfloat) list" where
  "groupby_sum L key val rows =
     map (\<lambda>k. (k, group_sum L (map val (filter (\<lambda>r. key r = k) rows)))) (sort (remdups (map key rows)))"

definition fmt_inr :: "pylib \<Rightarrow> pyfloat \<Rightarrow> pystr" where
  "fmt_inr L v =
     (if feq v (Fin 0) then [8377, 48]
      else if fle (Fin 10000000) v then 8377 # fmt_2f L (fdiv v (Fin 10000000)) @ S '' Cr''
      else if fle (Fin 100000) v then 8377 # fmt_2f L (fdiv v (Fin 100000)) @ S '' L''
      else if fle (Fin 1000) v then 8377 # fmt_1f L (fdiv v (Fin 1000)) @ S ''K''
      else 8377 # fmt_grouped L v)"

section \<open>Periods (analytics.py)\<close>

text \<open>The clock is an input: \<open>today\<close> is the moment the function is called at.\<close>

definition ts_le :: "timestamp \<Rightarrow> timestamp \<Rightarrow> bool" where
  "ts_le a b \<longleftrightarrow>
     year a < year b \<or> (year a = year b \<and> (month a < month b \<or> (month a = month b \<and>
       (day a < day b \<or> (day a = day b \<and> tod a \<le> tod b)))))"

definition date_ts :: "int \<Rightarrow> int \<Rightarrow> int \<Rightarrow> timestamp" where
  "date_ts y m d = \<lparr> year = y, month = m, day = d, tod = 0 \<rparr>"

definition current_quarter_bounds :: "timestamp \<Rightarrow> timestamp \<times> timestamp" where
  "current_quarter_bounds today =
     (if month today \<in> {4, 5, 6} then (date_ts (year today) 4 1, date_ts (year today) 6 30)
      else if month today \<in> {7, 8, 9} then (date_ts (year today) 7 1, date_ts (year today) 9 30)
      else if month today \<in> {10, 11, 12} then (date_ts (year today) 10 1, date_ts (year today) 12 31)
      else (date_ts (year today) 1 1, date_ts (year today) 3 31))"

text \<open>
  \<^verbatim>\<open>_filter_by_period\<close> on the rows of a frame; \<open>date_col\<close> reads the date column of a row,
  \<open>None\<close> being a missing date (\<^verbatim>\<open>NaT\<close>), which no comparison holds for.  A frame with
  a row has the column: the test \<^verbatim>\<open>date_col not in df.columns\<close> can only hold for a frame
  without rows, which is returned as it is.
\<close>

definition filter_by_period ::
    "timestamp \<Rightarrow> 'r list \<Rightarrow> ('r \<Rightarrow> timestamp option) \<Rightarrow> pystr option \<Rightarrow> 'r list" where
  "filter_by_period today df date_col period =
     (if period = None \<or> df = [] then df
      else if period = Some (S ''this_month'') then
        filter (\<lambda>r. case date_col r of None \<Rightarrow> False
                    | Some d \<Rightarrow> year d = year today \<and> month d = month today) df
      else if period = Some (S ''this_quarter'') then
        (let (q_start, q_end) = current_quarter_bounds today in
         filter (\<lambda>r. case date_col r of None \<Rightarrow> False
                     | Some d \<Rightarrow> ts_le q_start d \<and> ts_le d q_end) df)
      else if period = Some (S ''ytd'') then
        (let fy_start = date_ts (if 4 \<le> month today then year today else year today - 1) 4 1 in
         filter (\<lambda>r. case date_col r of None \<Rightarrow> False | Some d \<Rightarrow> ts_le fy_start d) df)
      else df)"

section \<open>The revenue rollup (analytics.py)\<close>

text \<open>The three dictionaries \<^verbatim>\<open>revenue_analytics\<close> returns.\<close>

record revenue_none =
  none_closed_total :: num
  none_closed_total_fmt :: pystr
  none_by_sector :: "(pystr \<times> pystr) list"
  none_by_month :: "(pystr \<times> pystr) list"
  none_count :: nat
  none_summary :: pystr

record revenue_found =
  closed_total :: num
  closed_total_fmt :: pystr
  rev_count :: nat
  rev_by_sector :: "(pystr \<times> pystr) list"
  rev_by_month :: "(pystr \<times> pystr) list"
  rev_top_sector :: pystr
  rev_top_sector_pct :: num
  rev_period :: pystr

datatype revenue_dict = Revenue_error pystr | Revenue_none revenue_none | Revenue_found revenue_found

text \<open>\<^verbatim>\<open>max(d, key=d.get)\<close>: the first key whose value no later value exceeds.\<close>

fun max_by_value :: "pystr \<times> pyfloat \<Rightarrow> (pystr \<times> pyfloat) list \<Rightarrow> pystr" where
  "max_by_value best [] = fst best"
| "max_by_value best (kv # kvs) = max_by_value (if flt (snd best) (snd kv) then kv else best) kvs"

definition period_truthy :: "pystr option \<Rightarrow> bool" where
  "period_truthy p \<longleftrightarrow> p \<noteq> None \<and> p \<noteq> Some []"

definition revenue_analytics :: "pylib \<Rightarrow> timestamp \<Rightarrow> deal list \<Rightarrow> pystr option \<Rightarrow> revenue_dict" where
  "revenue_analytics L today deals_df period =
     (if deals_df = [] then Revenue_error (S ''No deals data available.'')
      else
        let won0 = filter (\<lambda>d. status d = S ''Won'') deals_df;
            won = (if period_truthy period then filter_by_period today won0 close_date period else won0)
        in if won = [] then
             Revenue_none \<lparr> none_closed_total = Whole 0, none_closed_total_fmt = [8377, 48],
               none_by_sector = [], none_by_month = [], none_count = 0,
               none_summary = S ''No Won deals found for the selected period.'' \<rparr>
           else
             let total = pd_sum L (map deal_value won);
                 by_sector = sort_values_desc L (groupby_sum L sector deal_value won);
                 won_with_date = filter (\<lambda>d. close_date d \<noteq> None) won;
                 by_month = groupby_sum L (\<lambda>d. case close_date d of None \<Rightarrow> [] | Some t \<Rightarrow> period_M L t)
                              deal_value won_with_date;
                 top = (case by_sector of [] \<Rightarrow> S ''N/A'' | kv # kvs \<Rightarrow> max_by_value kv kvs);
                 top_value = (case map_of by_sector top of None \<Rightarrow> Fin 0 | Some v \<Rightarrow> v);
                 top_pct = (if flt (Fin 0) total
                            then Flt (round_float64 L (fmul (fdiv top_value total) (Fin 100)))
                            else Whole 0)
             in Revenue_found \<lparr> closed_total = Flt total, closed_total_fmt = fmt_inr L total,
                  rev_count = length won,
                  rev_by_sector = map (\<lambda>(k, v). (k, fmt_inr L v)) by_sector,
                  rev_by_month = map (\<lambda>(k, v). (k, fmt_inr L v)) by_month,
                  rev_top_sector = top, rev_top_sector_pct = top_pct,
                  rev_period = (case period of None \<Rightarrow> S ''all time''
                                | Some p \<Rightarrow> if p = [] then S ''all time'' else p) \<rparr>)"

section \<open>The cross-board rollup (analytics.py)\<close>

record sector_row =
  won_pipeline :: pystr
  wo_value :: pystr
  realization_rate_pct :: pyfloat

record cross_found =
  won_deals_count :: nat
  conversion_rate_pct :: num
  wo_coverage_rate_pct :: num
  total_pipeline :: pystr
  closed_revenue :: pystr
  total_wo_value :: pystr
  sector_performance :: "pystr \<rightharpoonup> sector_row"

datatype cross_dict = Cross_error pystr | Cross_found cross_found

text \<open>\<^verbatim>\<open>.str.strip().str.lower()\<close> on a name.\<close>

definition name_norm :: "pylib \<Rightarrow> pystr \<Rightarrow> pystr" where
  "name_norm L n = str_lower L (strip n)"

definition won_deals :: "deal list \<Rightarrow> deal list" where
  "won_deals deals_df = filter (\<lambda>d. status d = S ''Won'') deals_df"

text \<open>\<^verbatim>\<open>matched = won_names & wo_names\<close>, two sets of normalised names.\<close>

definition matched :: "pylib \<Rightarrow> deal list \<Rightarrow> workorder list \<Rightarrow> pystr set" where
  "matched L deals_df workorders_df =
     set (map (\<lambda>d. name_norm L (deal_name d)) (won_deals deals_df)) \<inter>
     set (map (\<lambda>w. name_norm L (deal_name_linked w)) workorders_df)"

text \<open>
  The two columns of \<^verbatim>\<open>sector_perf\<close> at a sector: the sum of the group, and 0 (from
  \<^verbatim>\<open>fillna\<close>) where the sector has no group on that side or the sum is NaN.
\<close>

definition won_value :: "pylib \<Rightarrow> deal list \<Rightarrow> pystr \<Rightarrow> pyfloat" where
  "won_value L deals_df k =
     fillna0 (case map_of (groupby_sum L sector deal_value (won_deals deals_df)) k of
                None \<Rightarrow> NaN | Some v \<Rightarrow> v)"

definition wo_value_of :: "pylib \<Rightarrow> workorder list \<Rightarrow> pystr \<Rightarrow> pyfloat" where
  "wo_value_of L workorders_df k =
     fillna0 (case map_of (groupby_sum L wo_sector amount_excl_gst workorders_df) k of
                None \<Rightarrow> NaN | Some v \<Rightarrow> v)"

definition realization_rate :: "pylib \<Rightarrow> deal list \<Rightarrow> workorder list \<Rightarrow> pystr \<Rightarrow> pyfloat" where
  "realization_rate L deals_df workorders_df k =
     series_round1 (if flt (Fin 0) (won_value L deals_df k)
                    then fmul (fdiv (wo_value_of L workorders_df k) (won_value L deals_df k)) (Fin 100)
                    else Fin 0)"

definition cross_board_analysis :: "pylib \<Rightarrow> deal list \<Rightarrow> workorder list \<Rightarrow> cross_dict" where
  "cross_board_analysis L deals_df workorders_df =
     (if deals_df = [] \<or> workorders_df = [] then
        Cross_error (S ''Both deals and work orders data are required for cross-board analysis.'')
      else
        let won = won_deals deals_df;
            conversion_count = card (matched L deals_df workorders_df);
            total_open_closed = length (filter (\<lambda>d. status d \<in> {S ''Open'', S ''Won''}) deals_df);
            won_count = length won;
            conversion_rate = (if 0 < total_open_closed
               then Flt (round1 (fin (of_nat (100 * won_count) / of_nat total_open_closed))) else Whole 0);
            wo_coverage_rate = (if 0 < won_count
               then Flt (round1 (fin (of_nat (100 * conversion_count) / of_nat won_count))) else Whole 0);
            total_pipeline = pd_sum L (map deal_value (filter (\<lambda>d. status d = S ''Open'') deals_df));
            total_closed = pd_sum L (map deal_value won);
            total_wo = pd_sum L (map amount_excl_gst workorders_df)
        in Cross_found \<lparr> won_deals_count = won_count,
             conversion_rate_pct = conversion_rate,
             wo_coverage_rate_pct = wo_coverage_rate,
             total_pipeline = fmt_inr L total_pipeline,
             closed_revenue = fmt_inr L total_closed,
             total_wo_value = fmt_inr L total_wo,
             sector_performance = (\<lambda>k.
               if k \<in> set (map sector won) \<union> set (map wo_sector workorders_df)
               then Some \<lparr> won_pipeline = fmt_inr L (won_value L deals_df k),
                           wo_value = fmt_inr L (wo_value_of L workorders_df k),
                           realization_rate_pct = realization_rate L deals_df workorders_df k \<rparr>
               else None) \<rparr>)"

section \<open>Data-quality caveats and the leadership report\<close>

text \<open>
  A caveats dictionary maps the name of a signal to a number; \<^verbatim>\<open>d.get(k, 0)\<close> reads it.
\<close>

type_synonym caveats = "(pystr \<times> num) list"

definition caveat_get :: "caveats \<Rightarrow> pystr \<Rightarrow> num" where
  "caveat_get d k = (case map_of d k of None \<Rightarrow> Whole 0 | Some v \<Rightarrow> v)"

definition exceeds :: "caveats \<Rightarrow> pystr \<Rightarrow> rat \<Rightarrow> bool" where
  "exceeds d k limit \<longleftrightarrow> flt (Fin limit) (num_val (caveat_get d k))"

function str_of_nat :: "nat \<Rightarrow> pystr" where
  "str_of_nat n = (if n < 10 then [48 + n] else str_of_nat (n div 10) @ [48 + n mod 10])"
  by pat_completeness auto
termination
  by (relation "measure id") auto

definition str_of_int :: "int \<Rightarrow> pystr" where
  "str_of_int i = (if i < 0 then 45 # str_of_nat (nat (- i)) else str_of_nat (nat i))"

text \<open>A number inside an f-string.\<close>

definition str_num :: "pylib \<Rightarrow> num \<Rightarrow> pystr" where
  "str_num L n = (case n of Whole i \<Rightarrow> str_of_int i | Flt x \<Rightarrow> fmt_num L x)"

text \<open>\<^verbatim>\<open>"\n".join(lines)\<close>.\<close>

fun join_lines :: "pystr list \<Rightarrow> pystr" where
  "join_lines [] = []"
| "join_lines [l] = l"
| "join_lines (l # ls) = l @ 10 # join_lines ls"

text \<open>
  \<^verbatim>\<open>format_caveats_text\<close> (data\_cleaner.py).  Each line starts with the warning sign
  (code points 9888 and 65039) and holds a dash (8212).
\<close>

definition caveat_lines :: "pylib \<Rightarrow> caveats \<Rightarrow> pystr list" where
  "caveat_lines L c =
     (if exceeds c (S ''deals_missing_revenue_pct'') 10
      then [[9888, 65039, 32] @ str_num L (caveat_get c (S ''deals_missing_revenue_pct'')) @
            S ''% of deals have no deal value '' @ 8212 # S '' revenue figures may be understated.'']
      else []) @
     (if exceeds c (S ''deals_missing_sector_pct'') 10
      then [[9888, 65039, 32] @ str_num L (caveat_get c (S ''deals_missing_sector_pct'')) @
            S ''% of deals have no sector '' @ 8212 # S '' sector breakdowns are partial.'']
      else []) @
     (if exceeds c (S ''deals_missing_close_date_pct'') 20
      then [[9888, 65039, 32] @ str_num L (caveat_get c (S ''deals_missing_close_date_pct'')) @
            S ''% of deals have no close date '' @ 8212 # S '' time-based filters may miss some deals.'']
      else []) @
     (if exceeds c (S ''wo_missing_amount_pct'') 10
      then [[9888, 65039, 32] @ str_num L (caveat_get c (S ''wo_missing_amount_pct'')) @
            S ''% of work orders have no amount '' @ 8212 #
            S '' revenue from operations may be understated.'']
      else [])"

definition format_caveats_text :: "pylib \<Rightarrow> caveats \<Rightarrow> pystr" where
  "format_caveats_text L c = join_lines (caveat_lines L c)"

text \<open>The dictionary \<^verbatim>\<open>format_leadership_update\<close> reads, entry by entry.\<close>

record pipeline_part =
  total_open_pipeline :: pystr
  weighted_pipeline :: pystr
  closing_this_quarter :: pystr
  by_sector :: "(pystr \<times> pystr) list"

record revenue_part =
  closed_ytd :: pystr
  top_sector :: pystr
  top_sector_share_pct :: num

record operations_part =
  active_work_orders :: int
  completed_work_orders :: int
  backlog_value :: pystr
  operational_risk :: pystr
  risk_note :: pystr

record conversion_part =
  won_to_total_rate_pct :: num
  coverage_rate_pct :: num

record update =
  title :: pystr
  generated_at :: pystr
  pipeline :: pipeline_part
  revenue :: revenue_part
  operations :: operations_part
  conversion :: conversion_part
  data_quality :: caveats

text \<open>The notes of the caveats section of the report, in the order they are appended.\<close>

definition report_notes :: "pylib \<Rightarrow> caveats \<Rightarrow> pystr list" where
  "report_notes L dq =
     (if exceeds dq (S ''deals_missing_revenue_pct'') 10
      then [str_num L (caveat_get dq (S ''deals_missing_revenue_pct'')) @
            S ''% of deals have no value (revenue may be understated)'']
      else []) @
     (if exceeds dq (S ''deals_missing_sector_pct'') 10
      then [str_num L (caveat_get dq (S ''deals_missing_sector_pct'')) @
            S ''% of deals have no sector (sector breakdown is partial)'']
      else []) @
     (if exceeds dq (S ''wo_missing_amount_pct'') 10
      then [str_num L (caveat_get dq (S ''wo_missing_amount_pct'')) @
            S ''% of work orders have no amount'']
      else [])"

definition caveats_header :: pystr where
  "caveats_header = S ''### '' @ [9888, 65039] @ S '' Data Caveats''"

text \<open>The caveats section: nothing for an empty dictionary or an empty list of notes.\<close>

definition caveats_section :: "pylib \<Rightarrow> caveats \<Rightarrow> pystr list" where
  "caveats_section L dq =
     (if dq = [] then []
      else if report_notes L dq = [] then []
      else [[], caveats_header] @ map (\<lambda>note. S ''- '' @ note) (report_notes L dq))"

definition report_lines :: "pylib \<Rightarrow> update \<Rightarrow> pystr list" where
  "report_lines L u =
     [S ''## '' @ 128202 # 32 # title u,
      S ''*Generated: '' @ generated_at u @ S ''*'',
      [],
      S ''### '' @ 128176 # S '' Pipeline'',
      S ''- **Total Open Pipeline:** '' @ total_open_pipeline (pipeline u),
      S ''- **Weighted Pipeline:** '' @ weighted_pipeline (pipeline u),
      S ''- **Closing This Quarter:** '' @ closing_this_quarter (pipeline u)] @
     (if by_sector (pipeline u) \<noteq> []
      then S ''- **By Sector:**'' #
           map (\<lambda>(sec, val). S ''  - '' @ str_title L sec @ S '': '' @ val) (take 5 (by_sector (pipeline u)))
      else []) @
     [[],
      S ''### '' @ 128200 # S '' Revenue (YTD)'',
      S ''- **Closed Revenue:** '' @ closed_ytd (revenue u),
      S ''- **Top Sector:** '' @ str_title L (top_sector (revenue u)) @ S '' ('' @
        str_num L (top_sector_share_pct (revenue u)) @ S ''% of closed revenue)''] @
     [[],
      S ''### '' @ 128295 # S '' Operations'',
      S ''- **Active Work Orders:** '' @ str_of_int (active_work_orders (operations u)),
      S ''- **Completed Work Orders:** '' @ str_of_int (completed_work_orders (operations u)),
      S ''- **Unbilled Backlog:** '' @ backlog_value (operations u),
      S ''- **Operational Risk:** '' @ operational_risk (operations u) @ 32 # 8212 # 32 #
        risk_note (operations u)] @
     [[],
      S ''### '' @ 128260 # S '' Conversion'',
      S ''- **Deal Win Rate:** '' @ str_num L (won_to_total_rate_pct (conversion u)) @ S ''%'',
      S ''- **Won '' @ 8594 # S '' Work Order Coverage:** '' @
        str_num L (coverage_rate_pct (conversion u)) @ S ''%''] @
     caveats_section L (data_quality u)"

definition format_leadership_update :: "pylib \<Rightarrow> update \<Rightarrow> pystr" where
  "format_leadership_update L u = join_lines (report_lines L u)"

section \<open>Sample inputs\<close>

text \<open>
  Concrete inputs for the closed statements below.  \<open>bare_lib\<close> is a library whose JSON
  parser and date parser reject every text, whose renderings are empty, which knows the
  ASCII letters and digits only, and whose sums add from the left; \<open>sample_deal\<close>
  and \<open>sample_workorder\<close> are canonical records with the given name, status (or linked
  deal name), amount and close date.
\<close>

definition bare_lib :: pylib where
  "bare_lib = \<lparr> json_loads = (\<lambda>_. None), py_str = (\<lambda>_. []), strptime_iso = (\<lambda>_ _. None),
     to_datetime = (\<lambda>_. None), fmt_2f = (\<lambda>_. []), fmt_1f = (\<lambda>_. []), fmt_grouped = (\<lambda>_. []),
     fmt_num = (\<lambda>_. []), str_title = (\<lambda>t. t), period_M = (\<lambda>_. []),
     sort_values_desc = (\<lambda>kvs. kvs), str_lower = lower, unicode_decimal = (\<lambda>_. None),
     series_sum = foldl fadd (Fin 0), group_sum = (\<lambda>xs. foldl fadd (Fin 0) (map fillna0 xs)),
     round_float64 = series_round1 \<rparr>"

definition sample_deal :: "pystr \<Rightarrow> pystr \<Rightarrow> pyfloat \<Rightarrow> timestamp option \<Rightarrow> deal" where
  "sample_deal n st v d = \<lparr> deal_name = n, owner_code = [], client_code = [], status = st,
     stage = [], sector = S ''unknown'', deal_value = v, probability = Fin 0,
     weighted_value = fmul v (Fin 0), close_date = d, created_date = None, product = [] \<rparr>"

definition sample_workorder :: "pystr \<Rightarrow> pystr \<Rightarrow> pyfloat \<Rightarrow> workorder" where
  "sample_workorder n linked a = \<lparr> wo_name = n, deal_name_linked = linked,
     wo_sector = S ''unknown'', exec_status = S ''Unknown'', is_active = False,
     amount_excl_gst = a, billed_excl_gst = Fin 0, unbilled_amount = py_max (Fin 0) (fsub a (Fin 0)),
     wo_status = [], nature_of_work = [], wo_owner_code = [], start_date = None, end_date = None \<rparr>"

definition value_cols :: columns where
  "value_cols = [(S ''c1'', S ''Deal Value'')]"

definition debit_item :: item where
  "debit_item = [S ''_item_name'' \<mapsto> S ''Acme'', S ''c1'' \<mapsto> S ''-5'']"

definition nan_item :: item where
  "nan_item = [S ''_item_name'' \<mapsto> S ''Acme'', S ''c1'' \<mapsto> S ''nan'']"

definition today0 :: timestamp where
  "today0 = \<lparr> year = 2026, month = 11, day = 3, tod = 0 \<rparr>"

definition new_year_2027 :: timestamp where
  "new_year_2027 = \<lparr> year = 2027, month = 1, day = 1, tod = 0 \<rparr>"

definition deal_cols :: columns where
  "deal_cols = [(S ''c1'', S ''Deal Value''), (S ''c2'', S ''Closure Probability''),
     (S ''c3'', S ''Deal Status'')]"

definition gain_item :: item where
  "gain_item = [S ''_item_name'' \<mapsto> S ''Acme'', S ''c1'' \<mapsto> S ''10k'', S ''c2'' \<mapsto> S ''High'',
     S ''c3'' \<mapsto> S ''Won'']"

definition acme_deal :: deal where
  "acme_deal = \<lparr> deal_name = S ''Acme'', owner_code = [], client_code = [], status = S ''Won'',
     stage = [], sector = S ''unknown'', deal_value = Fin 10000, probability = Fin (rnd (4 / 5)),
     weighted_value = Fin 8000, close_date = None, created_date = None, product = [] \<rparr>"

definition wo_cols :: columns where
  "wo_cols = [(S ''a1'', S ''Amount in Rupees (Excl of GST)''),
     (S ''b1'', S ''Billed Value in Rupees (Excl of GST)'')]"

definition survey_item :: item where
  "survey_item = [S ''_item_name'' \<mapsto> S ''ACME'', S ''a1'' \<mapsto> S ''5L'', S ''b1'' \<mapsto> S ''2L'']"

definition acme_workorder :: workorder where
  "acme_workorder = \<lparr> wo_name = S ''ACME'', deal_name_linked = S ''ACME'',
     wo_sector = S ''unknown'', exec_status = S ''Unknown'', is_active = False,
     amount_excl_gst = Fin 500000, billed_excl_gst = Fin 200000, unbilled_amount = Fin 300000,
     wo_status = [], nature_of_work = [], wo_owner_code = [], start_date = None, end_date = None \<rparr>"

definition header_item :: item where
  "header_item = [S ''_item_name'' \<mapsto> S ''deal name'']"

definition blank_item :: item where
  "blank_item = [S ''_item_name'' \<mapsto> S ''  '']"

definition late_dates :: caveats where
  "late_dates = [(S ''deals_missing_close_date_pct'', Flt (Fin 50))]"

definition twin_deals :: "deal list" where
  "twin_deals = [sample_deal (S ''Acme'') (S ''Won'') (Fin 1) None,
                 sample_deal (S ''ACME'') (S ''Won'') (Fin 2) None]"

definition acme_orders :: "workorder list" where
  "acme_orders = [sample_workorder (S ''W1'') (S ''acme'') (Fin 1)]"

definition open_deals_only :: "deal list" where
  "open_deals_only = [sample_deal (S ''B'') (S ''Open'') (Fin 2000000) None]"

section \<open>Predicates of the statements\<close>

text \<open>
  An unsigned text holds no minus sign and is not JSON-shaped (it does not start, once
  stripped, with a brace or a double quote).  A float is not below zero when it is at
  least 0 or a NaN.
\<close>

definition unsigned_text :: "pystr \<Rightarrow> bool" where
  "unsigned_text s \<longleftrightarrow> 45 \<notin> set s \<and> \<not> startswith (strip s) (S ''{'') \<and> \<not> startswith (strip s) [34]"

definition not_below_zero :: "pyfloat \<Rightarrow> bool" where
  "not_below_zero x \<longleftrightarrow> x = NaN \<or> fle (Fin 0) x"

definition item_name :: "item \<Rightarrow> pystr" where
  "item_name it = strip (item_get it (S ''_item_name''))"

section \<open>Rounding to a double\<close>

lemma bitlen_powi:
  assumes "0 < n"
  shows "(2::rat) powi (bitlen n - 1) \<le> of_int n" "of_int n < (2::rat) powi (bitlen n)"
proof -
  from bitlen_bounds [OF assms] have b: "2 ^ nat (bitlen n - 1) \<le> n" "n < 2 ^ nat (bitlen n)"
    by simp_all
  have one: "1 \<le> bitlen n"
  proof (rule ccontr)
    assume "\<not> 1 \<le> bitlen n"
    then have "nat (bitlen n) = 0" by simp
    with b(2) assms show False by simp
  qed
  have "(2::rat) powi (bitlen n - 1) = of_int (2 ^ nat (bitlen n - 1))"
    using one by (simp add: power_int_def)
  also have "\<dots> \<le> of_int n" using b(1) by (simp only: of_int_le_iff)
  finally show "(2::rat) powi (bitlen n - 1) \<le> of_int n" .
  have "(of_int n :: rat) < of_int (2 ^ nat (bitlen n))" using b(2) by (simp only: of_int_less_iff)
  also have "\<dots> = (2::rat) powi (bitlen n)" using one by (simp add: power_int_def)
  finally show "of_int n < (2::rat) powi (bitlen n)" .
qed

text \<open>\<open>ilog2\<close> is the binary exponent.\<close>

lemma ilog2_bounds:
  assumes "x \<noteq> 0"
  shows "2 powi (ilog2 x) \<le> \<bar>x\<bar> \<and> \<bar>x\<bar> < 2 powi (ilog2 x + 1)"
proof -
  obtain n d where q: "quotient_of \<bar>x\<bar> = (n, d)" by (cases "quotient_of \<bar>x\<bar>")
  then have d: "0 < d" and x: "\<bar>x\<bar> = of_int n / of_int d"
    using quotient_of_denom_pos quotient_of_div by blast+
  from assms have "0 < \<bar>x\<bar>" by simp
  with x d have n: "0 < n" by (simp add: zero_less_divide_iff)
  define bn bd where "bn = bitlen n" and "bd = bitlen d"
  note nb = bitlen_powi [OF n, folded bn_def]
  note db = bitlen_powi [OF d, folded bd_def]
  have dpos: "(0::rat) < of_int d" using d by simp
  have p: "(0::rat) < 2 powi k" for k by simp
  have "(2::rat) powi (bn - bd - 1) = 2 powi (bn - 1) / 2 powi bd"
    by (simp add: power_int_diff)
  also have "\<dots> \<le> of_int n / of_int d"
    using nb(1) db(2) dpos p n by (intro frac_le) (simp_all add: less_imp_le)
  finally have lo: "(2::rat) powi (bn - bd - 1) \<le> \<bar>x\<bar>" by (simp add: x)
  have "of_int n / of_int d < (2::rat) powi bn / 2 powi (bd - 1)"
    using nb(2) db(1) dpos p [of "bd - 1"] n by (intro frac_less) simp_all
  also have "\<dots> = (2::rat) powi (bn - (bd - 1))"
    by (rule power_int_diff [symmetric]) simp
  also have "bn - (bd - 1) = bn - bd + 1" by simp
  finally have hi: "\<bar>x\<bar> < (2::rat) powi (bn - bd + 1)" by (simp add: x)
  show ?thesis
    using lo hi by (auto simp add: ilog2_def q bn_def bd_def Let_def)
qed

lemma powi_less: "a < b" if "(2::rat) powi a < 2 powi b" for a b :: int
proof (rule ccontr)
  assume "\<not> a < b"
  then have "(2::rat) powi b \<le> 2 powi a" by (intro power_int_increasing) simp_all
  with that show False by simp
qed

lemma powi_not_zero:
  assumes "2 powi e \<le> \<bar>x\<bar>"
  shows "x \<noteq> (0::rat)"
proof
  have pos: "(0::rat) < 2 powi e" by (rule zero_less_power_int) simp
  assume "x = 0"
  with assms have "(2::rat) powi e \<le> 0" by simp
  with pos show False by linarith
qed

lemma ilog2_eq:
  assumes "2 powi e \<le> \<bar>x\<bar>" "\<bar>x\<bar> < 2 powi (e + 1)"
  shows "ilog2 x = e"
proof -
  from assms(1) have "x \<noteq> 0" by (rule powi_not_zero)
  from ilog2_bounds [OF this] assms
  have le: "(2::rat) powi e < 2 powi (ilog2 x + 1)" "(2::rat) powi (ilog2 x) < 2 powi (e + 1)"
    by linarith+
  from le(1) have "e < ilog2 x + 1" by (rule powi_less)
  moreover from le(2) have "ilog2 x < e + 1" by (rule powi_less)
  ultimately show ?thesis by simp
qed

lemma round_half_even_int: "round_half_even (of_int n) = n"
  by (simp add: round_half_even_def Let_def)

lemma round_half_even_zero: "round_half_even 0 = 0"
  using round_half_even_int [of 0] by simp

lemma round_half_even_near:
  assumes "\<bar>a - of_int k\<bar> < 1 / 2"
  shows "round_half_even a = k"
proof (cases "of_int k \<le> a")
  case True
  with assms have "\<lfloor>a\<rfloor> = k" by (intro floor_unique) (simp_all add: abs_less_iff)
  with assms True show ?thesis by (simp add: round_half_even_def Let_def abs_less_iff)
next
  case False
  with assms have "\<lfloor>a\<rfloor> = k - 1" by (intro floor_unique) (simp_all add: abs_less_iff)
  with assms False show ?thesis by (simp add: round_half_even_def Let_def abs_less_iff)
qed

lemma round_half_even_nonneg: "0 \<le> a \<Longrightarrow> 0 \<le> round_half_even a"
  by (auto simp add: round_half_even_def Let_def)

lemma ulp_pos: "0 < ulp x"
  unfolding ulp_def by (rule zero_less_power_int) simp

lemma rnd_nonneg: "0 \<le> a \<Longrightarrow> 0 \<le> rnd a"
  using ulp_pos [of a] round_half_even_nonneg [of "a / ulp a"]
  by (simp add: rnd_def less_imp_le)

text \<open>A number with at most 53 significant bits, and no bit below \<open>2 powi - 1074\<close>, is a double.\<close>

lemma rnd_exact:
  assumes "x = of_int m * 2 powi k" "\<bar>m\<bar> < 2 ^ 53" "- 1074 \<le> k"
  shows "rnd x = x"
proof (cases "x = 0")
  case True
  then show ?thesis by (simp add: rnd_def)
next
  case False
  define u where "u = max (ilog2 x) (- 1022) - 52"
  have u: "ulp x = 2 powi u" by (simp add: ulp_def u_def)
  have "\<bar>x\<bar> = of_int \<bar>m\<bar> * 2 powi k" by (simp add: assms(1) abs_mult)
  also have "\<dots> < of_int (2 ^ 53) * 2 powi k"
  proof (rule mult_strict_right_mono)
    from assms(2) show "(of_int \<bar>m\<bar> :: rat) < of_int (2 ^ 53)" by (simp only: of_int_less_iff)
    show "(0::rat) < 2 powi k" by (rule zero_less_power_int) simp
  qed
  also have "\<dots> = 2 powi (53 + k)" by (subst power_int_add) simp_all
  finally have "2 powi (ilog2 x) < (2::rat) powi (53 + k)"
    using ilog2_bounds [OF False] by linarith
  then have "ilog2 x < 53 + k" by (rule powi_less)
  with assms(3) have uk: "u \<le> k" by (simp add: u_def)
  have "x / 2 powi u = of_int m * 2 powi (k - u)"
    by (simp add: assms(1) power_int_diff)
  also have "\<dots> = of_int (m * 2 ^ nat (k - u))"
    using uk by (simp add: power_int_def)
  finally have q: "round_half_even (x / 2 powi u) = m * 2 ^ nat (k - u)"
    by (simp only: round_half_even_int)
  have "rnd x = of_int (m * 2 ^ nat (k - u)) * 2 powi u"
    using False by (simp add: rnd_def u q)
  also have "\<dots> = of_int m * (2 powi (k - u) * 2 powi u)"
    using uk by (simp add: power_int_def)
  also have "2 powi (k - u) * 2 powi u = (2::rat) powi k"
    by (subst power_int_add [symmetric]) simp_all
  finally show ?thesis by (simp add: assms(1))
qed

text \<open>Any other number, of binary exponent \<open>e\<close>, goes to the nearest multiple of the spacing.\<close>

lemma rnd_near:
  assumes "2 powi e \<le> \<bar>x\<bar>" "\<bar>x\<bar> < 2 powi (e + 1)" "- 1022 \<le> e"
    and "\<bar>x / 2 powi (e - 52) - of_int k\<bar> < 1 / 2"
  shows "rnd x = of_int k * 2 powi (e - 52)"
proof -
  from assms(1) have "x \<noteq> 0" by (rule powi_not_zero)
  moreover have "ulp x = 2 powi (e - 52)"
    using assms(3) by (simp add: ulp_def ilog2_eq [OF assms(1,2)])
  ultimately show ?thesis
    by (simp add: rnd_def round_half_even_near [OF assms(4)])
qed

lemma DBL_pos: "0 < DBL_LIMIT"
  by (simp add: DBL_LIMIT_def)

lemma fin_zero: "fin 0 = Fin 0"
  using DBL_pos by (simp add: fin_def rnd_def)

lemma fin_exact:
  assumes "x = of_int m * 2 powi k" "\<bar>m\<bar> < 2 ^ 53" "- 1074 \<le> k" "\<bar>x\<bar> < DBL_LIMIT"
  shows "fin x = Fin x"
  using assms(4) rnd_exact [OF assms(1,2,3)] by (simp add: fin_def abs_less_iff)

lemma fin_of_int:
  assumes "\<bar>m\<bar> < 2 ^ 53"
  shows "fin (of_int m) = Fin (of_int m)"
proof (rule fin_exact [of _ m 0])
  from assms have "(of_int \<bar>m\<bar> :: rat) < of_int (2 ^ 53)" by (simp only: of_int_less_iff)
  also have "\<dots> \<le> DBL_LIMIT" by (simp add: DBL_LIMIT_def)
  finally show "\<bar>of_int m :: rat\<bar> < DBL_LIMIT" by simp
qed (use assms in simp_all)

lemma fin_samples:
  "fin 2 = Fin 2" "fin 5 = Fin 5" "fin 10 = Fin 10" "fin 50 = Fin 50" "fin 100 = Fin 100"
  "fin 10000 = Fin 10000" "fin 120000 = Fin 120000" "fin 200000 = Fin 200000"
  "fin 300000 = Fin 300000" "fin 500000 = Fin 500000" "fin 25000000 = Fin 25000000"
  "fin (- 5) = Fin (- 5)"
  using fin_of_int [of 2] fin_of_int [of 5] fin_of_int [of 10] fin_of_int [of 50] fin_of_int [of 100]
    fin_of_int [of 10000] fin_of_int [of 120000] fin_of_int [of 200000] fin_of_int [of 300000]
    fin_of_int [of 500000] fin_of_int [of 25000000] fin_of_int [of "- 5"]
  by simp_all

lemma fin_half: "fin (5 / 2) = Fin (5 / 2)"
  by (rule fin_exact [of _ 5 "- 1"]) (simp_all add: DBL_LIMIT_def)

text \<open>The double 0.8, and its product with 10000.\<close>

lemma rnd_high: "rnd (4 / 5) = 3602879701896397 / 4503599627370496"
  using rnd_near [of "- 1" "4 / 5" 7205759403792794] by simp

lemma rnd_high_pos: "0 < rnd (4 / 5)"
  by (simp add: rnd_high)

lemma gain_weighted: "fmul (Fin 10000) (Fin (rnd (4 / 5))) = Fin 8000"
proof -
  have "rnd (10000 * (3602879701896397 / 4503599627370496)) = 8000"
    using rnd_near [of 12 "10000 * (3602879701896397 / 4503599627370496)" "8000 * 2 ^ 40"] by simp
  then show ?thesis by (simp add: fmul_def fin_def DBL_LIMIT_def rnd_high)
qed

text \<open>\<^verbatim>\<open>round(x, 1)\<close> leaves a whole number as it is.\<close>

lemma round1_whole:
  assumes "\<bar>n\<bar> < 2 ^ 53"
  shows "round1 (Fin (of_int n)) = Fin (of_int n)"
proof -
  have "round_half_even (of_int (n * 10)) = n * 10" by (rule round_half_even_int)
  then have "round1 (Fin (of_int n)) = fin (of_int n)" by simp
  with assms show ?thesis by (simp add: fin_of_int)
qed

lemma round1_samples: "round1 (Fin 50) = Fin 50" "round1 (Fin 100) = Fin 100"
  using round1_whole [of 50] round1_whole [of 100] by simp_all

lemma series_round1_zero: "series_round1 (Fin 0) = Fin 0"
  by (simp add: series_round1_def fmul_def fdiv_def fin_zero round_half_even_zero)

section \<open>Deal status precedence\<close>

lemma stage_sets_disjoint:
  "WON_STAGES \<inter> DEAD_STAGES = {}" "WON_STAGES \<inter> OPEN_STAGES = {}" "DEAD_STAGES \<inter> OPEN_STAGES = {}"
  by (simp_all add: WON_STAGES_def DEAD_STAGES_def OPEN_STAGES_def S_def)

lemma bare_lib_lower: "str_lower bare_lib = lower"
  by (simp add: bare_lib_def)

lemma normalize_text_lost: "normalize_text bare_lib (S ''L. Project Lost'') = S ''l. project lost''"
  by (simp add: normalize_text_def bare_lib_lower strip_def lower_def lower_cp_def is_space_def S_def)

lemma normalize_text_won: "normalize_text bare_lib (S '' Won '') = S ''won''"
  by (simp add: normalize_text_def bare_lib_lower strip_def lower_def lower_cp_def is_space_def S_def)

text \<open>
  C4.  An explicit status that normalises to \<open>won\<close>, \<open>dead\<close> or \<open>on hold\<close> decides the
  result whatever the stage is; otherwise the normalised stage decides: a won-stage gives
  \<open>Won\<close>, a dead-stage gives \<open>Dead\<close>, and every other stage (an open-stage or an unknown
  one) gives \<open>Open\<close>.  The stage \<open>L. Project Lost\<close> is a dead-stage, and together with
  the status \<open>Won\<close> the result is still \<open>Won\<close>.
\<close>

theorem map_deal_status_precedence:
  "(normalize_text L st = S ''won'' \<longrightarrow> map_deal_status L st sg = S ''Won'') \<and>
   (normalize_text L st = S ''dead'' \<longrightarrow> map_deal_status L st sg = S ''Dead'') \<and>
   (normalize_text L st = S ''on hold'' \<longrightarrow> map_deal_status L st sg = S ''On Hold'') \<and>
   (normalize_text L st \<notin> {S ''won'', S ''dead'', S ''on hold''} \<longrightarrow>
      (normalize_text L sg \<in> WON_STAGES \<longrightarrow> map_deal_status L st sg = S ''Won'') \<and>
      (normalize_text L sg \<in> DEAD_STAGES \<longrightarrow> map_deal_status L st sg = S ''Dead'') \<and>
      (normalize_text L sg \<in> OPEN_STAGES \<longrightarrow> map_deal_status L st sg = S ''Open'') \<and>
      (normalize_text L sg \<notin> WON_STAGES \<union> DEAD_STAGES \<union> OPEN_STAGES \<longrightarrow>
         map_deal_status L st sg = S ''Open''))"
proof -
  have ne: "S ''won'' \<noteq> S ''dead''" "S ''won'' \<noteq> S ''on hold''" "S ''dead'' \<noteq> S ''on hold''"
    by (simp_all add: S_def)
  have won: "normalize_text L st = S ''won'' \<longrightarrow> map_deal_status L st sg = S ''Won''"
    by (simp add: map_deal_status_def Let_def)
  have dead: "normalize_text L st = S ''dead'' \<longrightarrow> map_deal_status L st sg = S ''Dead''"
    using ne by (simp add: map_deal_status_def Let_def)
  have hold: "normalize_text L st = S ''on hold'' \<longrightarrow> map_deal_status L st sg = S ''On Hold''"
    using ne by (simp add: map_deal_status_def Let_def)
  have rest: "normalize_text L st \<notin> {S ''won'', S ''dead'', S ''on hold''} \<longrightarrow>
      (normalize_text L sg \<in> WON_STAGES \<longrightarrow> map_deal_status L st sg = S ''Won'') \<and>
      (normalize_text L sg \<in> DEAD_STAGES \<longrightarrow> map_deal_status L st sg = S ''Dead'') \<and>
      (normalize_text L sg \<in> OPEN_STAGES \<longrightarrow> map_deal_status L st sg = S ''Open'') \<and>
      (normalize_text L sg \<notin> WON_STAGES \<union> DEAD_STAGES \<union> OPEN_STAGES \<longrightarrow>
         map_deal_status L st sg = S ''Open'')"
    using stage_sets_disjoint by (auto simp add: map_deal_status_def Let_def)
  from won dead hold rest show ?thesis by blast
qed

theorem map_deal_status_precedence_witness:
  "normalize_text bare_lib (S '' Won '') = S ''won'' \<and>
   normalize_text bare_lib (S ''L. Project Lost'') \<in> DEAD_STAGES \<and>
   map_deal_status bare_lib (S '' Won '') (S ''L. Project Lost'') = S ''Won'' \<and>
   normalize_text bare_lib [] \<notin> {S ''won'', S ''dead'', S ''on hold''} \<and>
   map_deal_status bare_lib [] (S ''L. Project Lost'') = S ''Dead'' \<and>
   normalize_text bare_lib [] \<notin> WON_STAGES \<union> DEAD_STAGES \<union> OPEN_STAGES \<and>
   map_deal_status bare_lib [] [] = S ''Open''"
proof -
  have d: "normalize_text bare_lib (S ''L. Project Lost'') \<in> DEAD_STAGES"
    by (simp add: normalize_text_lost DEAD_STAGES_def)
  have e: "normalize_text bare_lib [] \<notin> {S ''won'', S ''dead'', S ''on hold''}"
    "normalize_text bare_lib [] \<notin> WON_STAGES \<union> DEAD_STAGES \<union> OPEN_STAGES"
    by (simp_all add: normalize_text_def WON_STAGES_def DEAD_STAGES_def OPEN_STAGES_def S_def)
  have won: "map_deal_status bare_lib (S '' Won '') (S ''L. Project Lost'') = S ''Won''"
    using map_deal_status_precedence [of bare_lib "S '' Won ''" "S ''L. Project Lost''"]
    by (simp add: normalize_text_won)
  have dead: "map_deal_status bare_lib [] (S ''L. Project Lost'') = S ''Dead''"
    using map_deal_status_precedence [of bare_lib "[]" "S ''L. Project Lost''"] d e by blast
  have opn: "map_deal_status bare_lib [] [] = S ''Open''"
    using map_deal_status_precedence [of bare_lib "[]" "[]"] e by blast
  from d e won dead opn show ?thesis by (simp add: normalize_text_won)
qed

section \<open>The amount normaliser\<close>

lemmas text_defs = S_def startswith_def endswith_def strip_def is_space_def lower_def lower_cp_def

lemmas revenue_defs = normalize_revenue_def revenue_of_text_def revenue_json_def
  strip_separators_def currency_match_def ci_prefix_def ci_eq_def split_suffix_def py_float_def
  to_ascii_def ascii_strip_def is_ascii_space_def is_digit_def
  parse_decimal_def parse_exponent_def digits_val_def pow10_def fmul_def

text \<open>The documented examples, for every library.\<close>

lemma normalize_revenue_10k: "normalize_revenue L (VStr (S ''10k'')) = Inr (Fin 10000)"
  by (simp add: revenue_defs text_defs fin_samples)

lemma normalize_revenue_rupees: "normalize_revenue L (VStr (8377 # S ''1,20,000'')) = Inr (Fin 120000)"
  by (simp add: revenue_defs text_defs fin_samples)

lemma normalize_revenue_crore: "normalize_revenue L (VStr (S ''2.5Cr'')) = Inr (Fin 25000000)"
  by (simp add: revenue_defs text_defs fin_samples fin_half)

lemma normalize_revenue_empty:
  "normalize_revenue L (VStr []) = Inr (Fin 0)" "normalize_revenue L VNone = Inr (Fin 0)"
  by (simp_all add: normalize_revenue_def)

text \<open>No text, no float and no \<^verbatim>\<open>None\<close> makes the function raise.\<close>

lemma normalize_revenue_text_returns: "\<exists>x. normalize_revenue L (VStr s) = Inr x"
  by (simp add: normalize_revenue_def)

lemma normalize_revenue_float_returns: "\<exists>x. normalize_revenue L (VFloat y) = Inr x"
  by (simp add: normalize_revenue_def)

lemma normalize_revenue_unparsable:
  "s \<noteq> [] \<Longrightarrow> revenue_json L (strip s) = Inr t \<Longrightarrow>
   py_float L (snd (split_suffix (strip_separators (strip_currency t)))) = None \<Longrightarrow>
   normalize_revenue L (VStr s) = Inr (Fin 0)"
  by (cases "split_suffix (strip_separators (strip_currency t))")
     (simp add: normalize_revenue_def revenue_of_text_def)

text \<open>
  C1.  The claim is that \<^verbatim>\<open>normalize_revenue\<close> returns a number for every input, 0 on
  any failure, and never raises.  On the integer \<open>10 ^ 400\<close> the conversion
  \<^verbatim>\<open>float(value)\<close> of the numeric branch, which no \<^verbatim>\<open>try\<close> guards, raises
  \<^verbatim>\<open>OverflowError\<close>: the function raises instead of returning 0.
\<close>

theorem normalize_revenue_overflow: "normalize_revenue L (VInt (10 ^ 400)) = Inl OverflowError"
  by (simp add: normalize_revenue_def float_of_int_def DBL_LIMIT_def)

section \<open>The year-to-date filter\<close>

lemma period_tokens: "S ''ytd'' \<noteq> S ''this_month''" "S ''ytd'' \<noteq> S ''this_quarter''"
  by (simp_all add: S_def)

text \<open>
  C2 as stated fails: on 3 November 2026 the year-to-date filter keeps a deal whose close
  date is 1 January 2027, a date after now.
\<close>

theorem filter_ytd_keeps_future:
  "filter_by_period today0 [sample_deal (S ''A'') (S ''Won'') (Fin 1) (Some new_year_2027)]
      close_date (Some (S ''ytd''))
     = [sample_deal (S ''A'') (S ''Won'') (Fin 1) (Some new_year_2027)] \<and>
   \<not> ts_le new_year_2027 today0"
  using period_tokens
  by (simp add: filter_by_period_def Let_def ts_le_def date_ts_def today0_def new_year_2027_def
      sample_deal_def)

text \<open>
  C2, amended.  For every record set, filtering with the period token \<open>ytd\<close> keeps, in
  their order, exactly the rows whose date is not missing and is on or after 1 April of
  the current financial year (of the year before when the current month is January to
  March); there is no upper bound.
\<close>

theorem filter_ytd_from_april:
  "filter_by_period today df date_col (Some (S ''ytd'')) =
     filter (\<lambda>r. \<exists>d. date_col r = Some d \<and>
        ts_le (date_ts (if 4 \<le> month today then year today else year today - 1) 4 1) d) df"
proof -
  have "(\<lambda>r. case date_col r of None \<Rightarrow> False | Some d \<Rightarrow> ts_le fy d) =
        (\<lambda>r. \<exists>d. date_col r = Some d \<and> ts_le fy d)" for fy
    by (auto split: option.splits)
  then show ?thesis
    using period_tokens by (cases df) (simp_all add: filter_by_period_def Let_def)
qed

section \<open>Properties of the normaliser and of the builders\<close>

lemma set_strip: "set (strip s) \<subseteq> set s"
proof -
  have "set (dropWhile P xs) \<subseteq> set xs" for P and xs :: "nat list"
    by (auto dest: set_dropWhileD)
  then have "set (dropWhile is_space (rev (dropWhile is_space s))) \<subseteq> set (dropWhile is_space s)"
    by (metis set_rev)
  also have "\<dots> \<subseteq> set s" by (auto dest: set_dropWhileD)
  finally show ?thesis by (simp add: strip_def)
qed

lemma set_ascii_strip: "set (ascii_strip s) \<subseteq> set s"
proof -
  have "set (dropWhile P xs) \<subseteq> set xs" for P and xs :: "nat list"
    by (auto dest: set_dropWhileD)
  then have "set (dropWhile is_ascii_space (rev (dropWhile is_ascii_space s))) \<subseteq>
      set (dropWhile is_ascii_space s)"
    by (metis set_rev)
  also have "\<dots> \<subseteq> set s" by (auto dest: set_dropWhileD)
  finally show ?thesis by (simp add: ascii_strip_def)
qed

text \<open>The step to ASCII makes no minus sign.\<close>

lemma to_ascii_minus: "to_ascii L c = 45 \<longleftrightarrow> c = 45"
  by (auto simp add: to_ascii_def split: option.splits)

lemma set_to_ascii:
  assumes "45 \<notin> set t"
  shows "45 \<notin> set (ascii_strip (map (to_ascii L) t))"
proof
  assume "45 \<in> set (ascii_strip (map (to_ascii L) t))"
  with set_ascii_strip [of "map (to_ascii L) t"] have "45 \<in> set (map (to_ascii L) t)" by blast
  then obtain c where "c \<in> set t" "to_ascii L c = 45" by auto
  with assms show False by (simp add: to_ascii_minus)
qed

lemma set_strip_currency: "set (strip_currency t) \<subseteq> set t"
proof (induction t rule: strip_currency.induct)
  case 1
  then show ?case by simp
next
  case (2 c t)
  show ?case
  proof (cases "currency_match (c # t) = 0")
    case True
    with 2 show ?thesis by auto
  next
    case False
    with 2 have "set (strip_currency (drop (currency_match (c # t) - 1) t)) \<subseteq> set t"
      using set_drop_subset by fastforce
    with False show ?thesis by auto
  qed
qed

lemma set_strip_separators: "set (strip_separators t) \<subseteq> set t"
  by (auto simp add: strip_separators_def)

lemma set_split_suffix: "set (snd (split_suffix t)) \<subseteq> set t"
  by (auto simp add: split_suffix_def dest: in_set_takeD)

lemma fst_split_suffix: "\<exists>m. fst (split_suffix t) = Fin m \<and> 0 < m"
  by (simp add: split_suffix_def)

lemma set_drop_underscores: "drop_underscores p t = Some u \<Longrightarrow> set u \<subseteq> set t"
proof (induction t arbitrary: p u)
  case Nil
  then show ?case by (simp split: if_splits)
next
  case (Cons c t)
  then show ?case by (fastforce split: if_splits)
qed

lemma pow10_pos: "0 < pow10 e"
  by (simp add: pow10_def)

lemma parse_decimal_nonneg: "parse_decimal u = Some a \<Longrightarrow> 0 \<le> a"
  using pow10_pos
  by (auto simp add: parse_decimal_def Let_def less_imp_le split: prod.splits option.splits if_splits list.splits)

lemma fin_nonneg: "0 \<le> a \<Longrightarrow> not_below_zero (fin a)"
  using DBL_pos rnd_nonneg [of a]
  by (auto simp add: fin_def not_below_zero_def fle_def feq_def)

lemma py_float_unsigned:
  assumes "45 \<notin> set t" "py_float L t = Some x"
  shows "not_below_zero x"
proof -
  from assms(2) obtain u where u: "drop_underscores 0 (ascii_strip (map (to_ascii L) t)) = Some u"
    by (auto simp add: py_float_def split: option.splits)
  with set_to_ascii [OF assms(1), of L] have nm: "45 \<notin> set u" using set_drop_underscores by blast
  define w where "w = (case u of [] \<Rightarrow> [] | c # r \<Rightarrow> if c = 43 then r else u)"
  have pf: "py_float L t =
      (if lower w = S ''inf'' \<or> lower w = S ''infinity'' then Some PInf
       else if lower w = S ''nan'' then Some NaN
       else case parse_decimal w of None \<Rightarrow> None | Some a \<Rightarrow> Some (fin a))"
    using nm by (cases u) (auto simp add: py_float_def u w_def split: option.splits)
  have inf: "not_below_zero PInf" and nan: "not_below_zero NaN"
    by (simp_all add: not_below_zero_def fle_def)
  from assms(2) show ?thesis
    unfolding pf using inf nan
    by (auto split: if_splits option.splits dest!: parse_decimal_nonneg intro: fin_nonneg)
qed

lemma fmul_not_below_zero:
  assumes "not_below_zero x" "0 < m"
  shows "not_below_zero (fmul x (Fin m))"
proof (cases x)
  case (Fin a)
  with assms have "0 \<le> a" by (auto simp add: not_below_zero_def fle_def feq_def)
  with assms have "0 \<le> a * m" by simp
  with Fin show ?thesis by (simp add: fmul_def fin_nonneg)
next
  case PInf
  with assms show ?thesis by (simp add: fmul_def not_below_zero_def fle_def)
next
  case NInf
  with assms show ?thesis by (simp add: not_below_zero_def fle_def feq_def)
next
  case NaN
  then show ?thesis by (simp add: fmul_def not_below_zero_def)
qed

lemma revenue_of_text_unsigned:
  assumes "unsigned_text s"
  shows "not_below_zero (revenue_of_text L s)"
proof -
  from assms have js: "revenue_json L (strip s) = Inr (strip s)"
    by (simp add: unsigned_text_def revenue_json_def)
  obtain m t where sp: "split_suffix (strip_separators (strip_currency (strip s))) = (m, t)"
    by (cases "split_suffix (strip_separators (strip_currency (strip s)))")
  from sp fst_split_suffix [of "strip_separators (strip_currency (strip s))"]
  obtain q where m: "m = Fin q" "0 < q" by auto
  have "set t \<subseteq> set s"
    using sp set_split_suffix [of "strip_separators (strip_currency (strip s))"]
      set_strip_separators [of "strip_currency (strip s)"] set_strip_currency [of "strip s"]
      set_strip [of s] by auto
  with assms have nm: "45 \<notin> set t" by (auto simp add: unsigned_text_def)
  have zero: "not_below_zero (Fin 0)" by (simp add: not_below_zero_def fle_def feq_def)
  show ?thesis
  proof (cases "py_float L t")
    case None
    with js sp zero show ?thesis by (simp add: revenue_of_text_def)
  next
    case (Some x)
    with nm have "not_below_zero x" by (rule py_float_unsigned)
    with m have "not_below_zero (fmul x m)" by (simp add: fmul_not_below_zero)
    with js sp Some show ?thesis by (simp add: revenue_of_text_def)
  qed
qed

lemma normalize_revenue_unsigned:
  assumes "s = [] \<or> unsigned_text s"
  shows "\<exists>x. normalize_revenue L (VStr s) = Inr x \<and> not_below_zero x"
  using assms revenue_of_text_unsigned [of s L]
  by (auto simp add: normalize_revenue_def not_below_zero_def fle_def feq_def)

lemma find_column_lower_ran: "find_column_lower it cols kws = [] \<or> find_column_lower it cols kws \<in> ran it"
  by (induction it cols kws rule: find_column_lower.induct)
     (auto simp add: item_get_def ran_def split: option.splits)

lemma find_column_ran: "find_column it cols kws = [] \<or> find_column it cols kws \<in> ran it"
  by (simp add: find_column_def find_column_lower_ran)

lemma collect_set:
  "collect f its = Inr rs \<Longrightarrow> r \<in> set rs \<Longrightarrow> \<exists>it \<in> set its. f it = Inr (Some r)"
proof (induction its arbitrary: rs)
  case Nil
  then show ?case by simp
next
  case (Cons it its)
  then show ?case
    by (auto split: sum.splits option.splits)
qed

text \<open>The records are those of the items kept, one for each, in their order.\<close>

lemma collect_map:
  assumes "\<And>it r. f it = Inr (Some r) \<Longrightarrow> g r = h it"
  shows "collect f its = Inr rs \<Longrightarrow> map g rs = map h (filter (\<lambda>it. f it \<noteq> Inr None) its)"
proof (induction its arbitrary: rs)
  case Nil
  then show ?case by simp
next
  case (Cons it its)
  then show ?case
    using assms [of it] by (auto split: sum.splits option.splits)
qed

lemma ebind_Inr: "ebind m f = Inr y \<Longrightarrow> \<exists>x. m = Inr x \<and> f x = Inr y"
  by (cases m) (simp_all add: ebind_def)

lemma build_deal_weighted:
  assumes "build_deal L cols it = Inr (Some r)"
  shows "weighted_value r = fmul (deal_value r) (probability r)"
  using assms unfolding build_deal_def Let_def
  by (auto split: if_splits dest!: ebind_Inr)

lemma probability_values:
  "(case PROBABILITY_MAP k of None \<Rightarrow> Fin 0 | Some p \<Rightarrow> p) \<in>
     {Fin (rnd (4 / 5)), Fin (1 / 2), Fin (1 / 4), Fin 0}"
  by (simp add: PROBABILITY_MAP_def)

lemma build_deal_probability:
  assumes "build_deal L cols it = Inr (Some r)"
  shows "probability r \<in> {Fin (rnd (4 / 5)), Fin (1 / 2), Fin (1 / 4), Fin 0}"
proof -
  from assms have "probability r =
      (case PROBABILITY_MAP (normalize_text L (find_column it cols [S ''probability'', S ''closure''])) of
         None \<Rightarrow> Fin 0 | Some p \<Rightarrow> p)"
    unfolding build_deal_def Let_def by (auto split: if_splits dest!: ebind_Inr)
  then show ?thesis by (simp only: probability_values)
qed

lemma build_deal_name:
  assumes "build_deal L cols it = Inr (Some r)"
  shows "deal_name r = item_name it"
  using assms unfolding build_deal_def Let_def item_name_def
  by (auto split: if_splits dest!: ebind_Inr)

lemma build_workorder_name:
  assumes "build_workorder L cols it = Inr (Some w)"
  shows "wo_name w = item_name it"
  using assms unfolding build_workorder_def Let_def item_name_def
  by (auto split: if_splits dest!: ebind_Inr)

lemma build_deal_value:
  assumes "build_deal L cols it = Inr (Some r)"
  shows "normalize_revenue L (VStr (find_column it cols [S ''value'', S ''deal value'', S ''masked''])) =
         Inr (deal_value r)"
  using assms unfolding build_deal_def Let_def
  by (auto split: if_splits dest!: ebind_Inr)

lemma build_workorder_amounts:
  assumes "build_workorder L cols it = Inr (Some w)"
  shows "(normalize_revenue L (VStr (find_column it cols
            [S ''amount in rupees (excl'', S ''excl of gst'', S ''excl. of gst''])) = Inr (amount_excl_gst w) \<or>
          normalize_revenue L (VStr (find_column it cols
            [S ''amount in rupees (incl'', S ''incl of gst''])) = Inr (amount_excl_gst w)) \<and>
         normalize_revenue L (VStr (find_column it cols
            [S ''billed value in rupees (excl'', S ''billed value''])) = Inr (billed_excl_gst w)"
  using assms unfolding build_workorder_def Let_def
  by (auto split: if_splits dest!: ebind_Inr)

lemma lower_cp_not_empty: "lower_cp c \<noteq> []"
  by (simp add: lower_cp_def)

lemma lower_empty: "lower s = [] \<longleftrightarrow> s = []"
  by (cases s) (simp_all add: lower_def lower_cp_not_empty)

lemma build_deal_dropped:
  "build_deal L cols it = Inr None \<longleftrightarrow> item_name it = [] \<or> lower (item_name it) = S ''deal name''"
  unfolding build_deal_def Let_def item_name_def
  by (auto dest!: ebind_Inr simp add: lower_empty)

lemma build_workorder_dropped:
  "build_workorder L cols it = Inr None \<longleftrightarrow> item_name it = []"
  unfolding build_workorder_def Let_def item_name_def
  by (auto dest!: ebind_Inr)

lemma build_workorder_linked:
  assumes "build_workorder L cols it = Inr (Some w)"
      and "find_column it cols [S ''deal name'', S ''deal''] = []"
  shows "deal_name_linked w = wo_name w \<and> wo_name w = item_name it \<and> wo_name w \<noteq> []"
  using assms unfolding build_workorder_def Let_def item_name_def
  by (auto split: if_splits dest!: ebind_Inr)

text \<open>
  Only a date cell can make a builder raise, and only one that starts with a brace.
\<close>

lemma normalize_date_returns:
  "\<not> startswith (strip v) (S ''{'') \<Longrightarrow> \<exists>d. normalize_date L v = Inr d"
  by (simp add: normalize_date_def Let_def)

lemma collect_returns:
  "(\<forall>it \<in> set its. \<exists>r. f it = Inr r) \<Longrightarrow> \<exists>rs. collect f its = Inr rs"
proof (induction its)
  case Nil
  then show ?case by simp
next
  case (Cons it its)
  then obtain r rs where "f it = Inr r" "collect f its = Inr rs" by auto
  then show ?case by (cases r) simp_all
qed

lemma build_deal_returns:
  assumes "\<not> startswith (strip (find_column it cols
              [S ''close date'', S ''actual close'', S ''close date (a)''])) (S ''{'')"
      and "\<not> startswith (strip (find_column it cols [S ''tentative'', S ''expected close''])) (S ''{'')"
      and "\<not> startswith (strip (find_column it cols [S ''created'', S ''creation''])) (S ''{'')"
  shows "\<exists>r. build_deal L cols it = Inr r"
proof -
  from assms obtain d1 d2 d3 where
    "normalize_date L (find_column it cols [S ''close date'', S ''actual close'', S ''close date (a)'']) = Inr d1"
    "normalize_date L (find_column it cols [S ''tentative'', S ''expected close'']) = Inr d2"
    "normalize_date L (find_column it cols [S ''created'', S ''creation'']) = Inr d3"
    using normalize_date_returns by meson
  then show ?thesis
    unfolding build_deal_def Let_def by (simp add: ebind_def normalize_revenue_def)
qed

lemma build_workorder_returns:
  assumes "\<not> startswith (strip (find_column it cols
              [S ''probable start'', S ''start date'', S ''date of po''])) (S ''{'')"
      and "\<not> startswith (strip (find_column it cols
              [S ''probable end'', S ''end date'', S ''delivery date''])) (S ''{'')"
  shows "\<exists>r. build_workorder L cols it = Inr r"
proof -
  from assms obtain d1 d2 where
    "normalize_date L (find_column it cols [S ''probable start'', S ''start date'', S ''date of po'']) = Inr d1"
    "normalize_date L (find_column it cols [S ''probable end'', S ''end date'', S ''delivery date'']) = Inr d2"
    using normalize_date_returns by meson
  then show ?thesis
    unfolding build_workorder_def Let_def by (simp add: ebind_def normalize_revenue_def)
qed

text \<open>
  The deals builder keeps the items whose stripped name is neither empty nor \<open>deal name\<close>
  without regard to case, the work-order builder those whose stripped name is not empty;
  the names of the records are the names of the items kept, one record for each, in
  their order.
\<close>

lemma deals_kept:
  assumes "clean_deals_df L deal_items cols = Inr ds"
  shows "map deal_name ds =
     map item_name (filter (\<lambda>i. \<not> (item_name i = [] \<or> lower (item_name i) = S ''deal name'')) deal_items)"
proof (cases "deal_items = []")
  case True
  with assms show ?thesis by (simp add: clean_deals_df_def)
next
  case False
  with assms have "collect (build_deal L cols) deal_items = Inr ds" by (simp add: clean_deals_df_def)
  from collect_map [of "build_deal L cols" deal_name item_name, OF build_deal_name this]
  show ?thesis by (simp add: build_deal_dropped)
qed

lemma workorders_kept:
  assumes "clean_workorders_df L wo_items wcols = Inr ws"
  shows "map wo_name ws = map item_name (filter (\<lambda>i. item_name i \<noteq> []) wo_items)"
proof (cases "wo_items = []")
  case True
  with assms show ?thesis by (simp add: clean_workorders_df_def)
next
  case False
  with assms have "collect (build_workorder L wcols) wo_items = Inr ws"
    by (simp add: clean_workorders_df_def)
  from collect_map [of "build_workorder L wcols" wo_name item_name, OF build_workorder_name this]
  show ?thesis by (simp add: build_workorder_dropped)
qed

section \<open>The sample inputs, evaluated\<close>

lemma normalize_date_empty: "normalize_date L [] = Inr None"
  by (simp add: normalize_date_def)

lemma bare_lib_to_datetime: "to_datetime bare_lib x = None"
  by (simp add: bare_lib_def)

lemma strip_Nil: "strip [] = []"
  by (simp add: strip_def)

lemma normalize_text_empty: "normalize_text L [] = []"
  by (simp add: normalize_text_def)

lemma gain_cells:
  "item_get gain_item (S ''_item_name'') = S ''Acme''"
  "item_get gain_item (S ''c1'') = S ''10k''"
  "item_get gain_item (S ''c2'') = S ''High''"
  "item_get gain_item (S ''c3'') = S ''Won''"
  by (simp_all add: gain_item_def item_get_def S_def)

lemma gain_columns:
  "find_column gain_item deal_cols [S ''status'', S ''deal status''] = S ''Won''"
  "find_column gain_item deal_cols [S ''stage'', S ''deal stage''] = []"
  "find_column gain_item deal_cols [S ''sector'', S ''service''] = []"
  "find_column gain_item deal_cols [S ''value'', S ''deal value'', S ''masked''] = S ''10k''"
  "find_column gain_item deal_cols [S ''close date'', S ''actual close'', S ''close date (a)''] = []"
  "find_column gain_item deal_cols [S ''tentative'', S ''expected close''] = []"
  "find_column gain_item deal_cols [S ''probability'', S ''closure''] = S ''High''"
  "find_column gain_item deal_cols [S ''owner'', S ''personnel''] = []"
  "find_column gain_item deal_cols [S ''client'', S ''company''] = []"
  "find_column gain_item deal_cols [S ''product''] = []"
  "find_column gain_item deal_cols [S ''created'', S ''creation''] = []"
  by (simp_all add: find_column_def deal_cols_def gain_cells)
     (simp_all add: text_defs)

lemma gain_parts:
  "strip (S ''Acme'') = S ''Acme''" "S ''Acme'' \<noteq> []" "lower (S ''Acme'') \<noteq> S ''deal name''"
  "lower (S ''Acme'') \<noteq> []"
  "map_deal_status bare_lib (S ''Won'') [] = S ''Won''"
  "normalize_text bare_lib (S ''High'') = S ''high''"
  "strip [] = []"
  by (simp_all add: map_deal_status_def normalize_text_def bare_lib_lower Let_def text_defs)

lemma gain_probability: "PROBABILITY_MAP (S ''high'') = Some (Fin (rnd (4 / 5)))"
  by (simp add: PROBABILITY_MAP_def S_def)

lemma build_gain: "build_deal bare_lib deal_cols gain_item = Inr (Some acme_deal)"
  unfolding build_deal_def Let_def gain_columns gain_cells
  using gain_parts
  by (simp add: normalize_revenue_10k normalize_date_empty normalize_text_empty ebind_def date_truthy_def
      gain_probability gain_weighted bare_lib_to_datetime text_or_def acme_deal_def)

lemma clean_gain: "clean_deals_df bare_lib [gain_item] deal_cols = Inr [acme_deal]"
  by (simp add: clean_deals_df_def build_gain)

lemma survey_cells:
  "item_get survey_item (S ''_item_name'') = S ''ACME''"
  "item_get survey_item (S ''a1'') = S ''5L''"
  "item_get survey_item (S ''b1'') = S ''2L''"
  by (simp_all add: survey_item_def item_get_def S_def)

lemma wo_titles:
  "lower (S ''Amount in Rupees (Excl of GST)'') = S ''amount in rupees (excl of gst)''"
  "lower (S ''Billed Value in Rupees (Excl of GST)'') = S ''billed value in rupees (excl of gst)''"
  by (simp_all add: text_defs)

lemma survey_columns:
  "find_column survey_item wo_cols [S ''deal name'', S ''deal''] = []"
  "find_column survey_item wo_cols [S ''execution status'', S ''exec status'', S ''status''] = []"
  "find_column survey_item wo_cols [S ''sector''] = []"
  "find_column survey_item wo_cols [S ''amount in rupees (excl'', S ''excl of gst'', S ''excl. of gst''] = S ''5L''"
  "find_column survey_item wo_cols [S ''amount in rupees (incl'', S ''incl of gst''] = []"
  "find_column survey_item wo_cols [S ''billed value in rupees (excl'', S ''billed value''] = S ''2L''"
  "find_column survey_item wo_cols [S ''wo status'', S ''billing status'', S ''collection status''] = []"
  "find_column survey_item wo_cols [S ''probable start'', S ''start date'', S ''date of po''] = []"
  "find_column survey_item wo_cols [S ''probable end'', S ''end date'', S ''delivery date''] = []"
  "find_column survey_item wo_cols [S ''nature of work'', S ''nature''] = []"
  "find_column survey_item wo_cols [S ''bd/kam'', S ''owner'', S ''personnel''] = []"
  by (simp_all add: find_column_def wo_cols_def survey_cells wo_titles)
     (simp_all add: S_def startswith_def lower_def lower_cp_def)

lemma survey_amounts:
  "normalize_revenue L (VStr (S ''5L'')) = Inr (Fin 500000)"
  "normalize_revenue L (VStr (S ''2L'')) = Inr (Fin 200000)"
  by (simp_all add: revenue_defs text_defs fin_samples)

lemma survey_parts:
  "strip (S ''ACME'') = S ''ACME''" "S ''ACME'' \<noteq> []"
  "exec_status_clean [] = S ''Unknown''"
  "py_max (Fin 0) (fsub (Fin 500000) (Fin 200000)) = Fin 300000"
  "truthy (Fin 500000)"
  "S ''Unknown'' \<notin> {S ''Ongoing'', S ''Not Started'', S ''Paused'', S ''Partially Completed'', S ''Pending''}"
  by (simp_all add: exec_status_clean_def py_max_def fsub_def fadd_def fin_samples
      truthy_def text_defs)

lemma build_survey: "build_workorder bare_lib wo_cols survey_item = Inr (Some acme_workorder)"
  unfolding build_workorder_def Let_def survey_columns survey_cells
  using survey_parts
  by (simp add: strip_Nil survey_amounts normalize_date_empty normalize_text_empty ebind_def
      bare_lib_to_datetime text_or_def acme_workorder_def)

lemma clean_survey: "clean_workorders_df bare_lib [survey_item] wo_cols = Inr [acme_workorder]"
  by (simp add: clean_workorders_df_def build_survey)

lemma debit_cells:
  "item_get debit_item (S ''_item_name'') = S ''Acme''"
  "item_get debit_item (S ''c1'') = S ''-5''"
  "item_get nan_item (S ''_item_name'') = S ''Acme''"
  "item_get nan_item (S ''c1'') = S ''nan''"
  by (simp_all add: debit_item_def nan_item_def item_get_def S_def)

lemma debit_columns:
  "find_column debit_item value_cols [S ''status'', S ''deal status''] = []"
  "find_column debit_item value_cols [S ''stage'', S ''deal stage''] = []"
  "find_column debit_item value_cols [S ''sector'', S ''service''] = []"
  "find_column debit_item value_cols [S ''value'', S ''deal value'', S ''masked''] = S ''-5''"
  "find_column debit_item value_cols [S ''close date'', S ''actual close'', S ''close date (a)''] = []"
  "find_column debit_item value_cols [S ''tentative'', S ''expected close''] = []"
  "find_column debit_item value_cols [S ''probability'', S ''closure''] = []"
  "find_column debit_item value_cols [S ''owner'', S ''personnel''] = []"
  "find_column debit_item value_cols [S ''client'', S ''company''] = []"
  "find_column debit_item value_cols [S ''product''] = []"
  "find_column debit_item value_cols [S ''created'', S ''creation''] = []"
  by (simp_all add: find_column_def value_cols_def debit_cells)
     (simp_all add: text_defs)

lemma nan_columns:
  "find_column nan_item value_cols [S ''status'', S ''deal status''] = []"
  "find_column nan_item value_cols [S ''stage'', S ''deal stage''] = []"
  "find_column nan_item value_cols [S ''sector'', S ''service''] = []"
  "find_column nan_item value_cols [S ''value'', S ''deal value'', S ''masked''] = S ''nan''"
  "find_column nan_item value_cols [S ''close date'', S ''actual close'', S ''close date (a)''] = []"
  "find_column nan_item value_cols [S ''tentative'', S ''expected close''] = []"
  "find_column nan_item value_cols [S ''probability'', S ''closure''] = []"
  "find_column nan_item value_cols [S ''owner'', S ''personnel''] = []"
  "find_column nan_item value_cols [S ''client'', S ''company''] = []"
  "find_column nan_item value_cols [S ''product''] = []"
  "find_column nan_item value_cols [S ''created'', S ''creation''] = []"
  by (simp_all add: find_column_def value_cols_def debit_cells)
     (simp_all add: text_defs)

lemma normalize_revenue_debit: "normalize_revenue L (VStr (S ''-5'')) = Inr (Fin (- 5))"
  by (simp add: revenue_defs text_defs fin_samples)

text \<open>The text \<open>nan\<close> is a number for \<^verbatim>\<open>float\<close>: the amount is a NaN.\<close>

lemma normalize_revenue_nan: "normalize_revenue L (VStr (S ''nan'')) = Inr NaN"
  by (simp add: revenue_defs text_defs)

lemma debit_parts:
  "map_deal_status L [] [] = S ''Open''" "PROBABILITY_MAP [] = Some (Fin 0)"
  by (simp_all add: map_deal_status_def normalize_text_def Let_def PROBABILITY_MAP_def
      WON_STAGES_def DEAD_STAGES_def OPEN_STAGES_def S_def)

lemma build_debit:
  "build_deal bare_lib value_cols debit_item = Inr (Some (sample_deal (S ''Acme'') (S ''Open'') (Fin (- 5)) None))"
  unfolding build_deal_def Let_def debit_columns debit_cells
  using gain_parts
  by (simp add: strip_Nil normalize_revenue_debit normalize_date_empty normalize_text_empty ebind_def
      date_truthy_def debit_parts bare_lib_to_datetime text_or_def sample_deal_def)

lemma build_nan:
  "build_deal bare_lib value_cols nan_item = Inr (Some (sample_deal (S ''Acme'') (S ''Open'') NaN None))"
  unfolding build_deal_def Let_def nan_columns debit_cells
  using gain_parts
  by (simp add: strip_Nil normalize_revenue_nan normalize_date_empty normalize_text_empty ebind_def
      date_truthy_def debit_parts bare_lib_to_datetime text_or_def sample_deal_def)

lemma unsigned_samples:
  "unsigned_text []" "unsigned_text (S ''10k'')" "unsigned_text (S ''5L'')" "unsigned_text (S ''2L'')"
  by (simp_all add: unsigned_text_def text_defs)

lemma item_names:
  "item_name header_item = S ''deal name''" "item_name blank_item = []"
  "item_name gain_item = S ''Acme''" "item_name survey_item = S ''ACME''"
  by (simp_all add: item_name_def header_item_def blank_item_def gain_item_def survey_item_def
      item_get_def text_defs)

section \<open>Amounts of the records built\<close>

text \<open>
  C3 as stated fails: the item named Acme whose value cell is \<open>-5\<close> gives a deal record
  with \<open>deal_value = -5\<close>, which is not at least 0.
\<close>

theorem debit_item_negative:
  "clean_deals_df bare_lib [debit_item] value_cols =
     Inr [sample_deal (S ''Acme'') (S ''Open'') (Fin (- 5)) None] \<and>
   \<not> fle (Fin 0) (deal_value (sample_deal (S ''Acme'') (S ''Open'') (Fin (- 5)) None))"
  by (simp add: clean_deals_df_def build_debit sample_deal_def fle_def feq_def)

text \<open>
  C3, amended.  The builders apply no clamp to an amount: a record holds what
  \<^verbatim>\<open>normalize_revenue\<close> returns.  For every raw batch whose resolved value cells are
  unsigned texts (no minus sign, not JSON-shaped; the empty text is one), every deal
  record built has a \<^verbatim>\<open>deal_value\<close> that is at least 0 or a NaN; and for every batch
  whose resolved amount cells (excluding GST, including GST, billed) are unsigned texts,
  every work-order record built has \<^verbatim>\<open>amount_excl_gst\<close> and \<^verbatim>\<open>billed_excl_gst\<close> at least 0
  or NaN.
\<close>

theorem amounts_not_below_zero:
  "(clean_deals_df L deal_items cols = Inr ds \<and>
    (\<forall>it \<in> set deal_items. unsigned_text (find_column it cols [S ''value'', S ''deal value'', S ''masked''])) \<longrightarrow>
    (\<forall>d \<in> set ds. not_below_zero (deal_value d))) \<and>
   (clean_workorders_df L wo_items wcols = Inr ws \<and>
    (\<forall>it \<in> set wo_items.
       unsigned_text (find_column it wcols [S ''amount in rupees (excl'', S ''excl of gst'', S ''excl. of gst'']) \<and>
       unsigned_text (find_column it wcols [S ''amount in rupees (incl'', S ''incl of gst'']) \<and>
       unsigned_text (find_column it wcols [S ''billed value in rupees (excl'', S ''billed value''])) \<longrightarrow>
    (\<forall>w \<in> set ws. not_below_zero (amount_excl_gst w) \<and> not_below_zero (billed_excl_gst w)))"
proof -
  have nr: "unsigned_text s \<Longrightarrow> normalize_revenue L (VStr s) = Inr x \<Longrightarrow> not_below_zero x" for s x
    using normalize_revenue_unsigned [of s L] by auto
  have deals: "\<forall>d \<in> set ds. not_below_zero (deal_value d)"
    if c: "clean_deals_df L deal_items cols = Inr ds"
    and u: "\<forall>it \<in> set deal_items. unsigned_text (find_column it cols [S ''value'', S ''deal value'', S ''masked''])"
  proof
    fix d assume "d \<in> set ds"
    with c obtain it where it: "it \<in> set deal_items" "build_deal L cols it = Inr (Some d)"
      by (auto simp add: clean_deals_df_def split: if_splits dest!: collect_set)
    from it(2) have "normalize_revenue L (VStr (find_column it cols [S ''value'', S ''deal value'', S ''masked''])) =
         Inr (deal_value d)" by (rule build_deal_value)
    with u it(1) show "not_below_zero (deal_value d)" by (auto intro: nr)
  qed
  have wos: "\<forall>w \<in> set ws. not_below_zero (amount_excl_gst w) \<and> not_below_zero (billed_excl_gst w)"
    if c: "clean_workorders_df L wo_items wcols = Inr ws"
    and u: "\<forall>it \<in> set wo_items.
       unsigned_text (find_column it wcols [S ''amount in rupees (excl'', S ''excl of gst'', S ''excl. of gst'']) \<and>
       unsigned_text (find_column it wcols [S ''amount in rupees (incl'', S ''incl of gst'']) \<and>
       unsigned_text (find_column it wcols [S ''billed value in rupees (excl'', S ''billed value''])"
  proof
    fix w assume "w \<in> set ws"
    with c obtain it where it: "it \<in> set wo_items" "build_workorder L wcols it = Inr (Some w)"
      by (auto simp add: clean_workorders_df_def split: if_splits dest!: collect_set)
    from build_workorder_amounts [OF it(2)] u it(1)
    show "not_below_zero (amount_excl_gst w) \<and> not_below_zero (billed_excl_gst w)"
      by (auto intro: nr)
  qed
  from deals wos show ?thesis by blast
qed


theorem amounts_not_below_zero_witness:
  "clean_deals_df bare_lib [gain_item] deal_cols = Inr [acme_deal] \<and>
   unsigned_text (find_column gain_item deal_cols [S ''value'', S ''deal value'', S ''masked'']) \<and>
   not_below_zero (deal_value acme_deal) \<and>
   clean_workorders_df bare_lib [survey_item] wo_cols = Inr [acme_workorder] \<and>
   not_below_zero (amount_excl_gst acme_workorder) \<and> not_below_zero (billed_excl_gst acme_workorder)"
  using amounts_not_below_zero [of bare_lib "[gain_item]" deal_cols "[acme_deal]"
      "[survey_item]" wo_cols "[acme_workorder]"] clean_gain clean_survey
  by (simp add: gain_columns survey_columns unsigned_samples)

section \<open>The weighted value\<close>

lemma fmul_nan:
  assumes "p \<in> {Fin (rnd (4 / 5)), Fin (1 / 2), Fin (1 / 4), Fin 0}"
  shows "fmul v p = NaN \<longleftrightarrow> v = NaN \<or> (v \<in> {PInf, NInf} \<and> p = Fin 0)"
proof -
  have fin: "fin a \<noteq> NaN" for a by (simp add: fin_def)
  from assms rnd_high_pos show ?thesis
    by (cases v) (auto simp add: fmul_def fin)
qed

text \<open>
  C7 as stated fails: the item named Acme whose value cell is \<open>nan\<close> gives a deal record
  whose \<^verbatim>\<open>deal_value\<close> and \<^verbatim>\<open>weighted_value\<close> are NaN, and the comparison
  \<^verbatim>\<open>weighted_value == deal_value * probability\<close> is false on it, a NaN being equal to
  nothing.
\<close>

theorem nan_value_not_equal:
  "clean_deals_df bare_lib [nan_item] value_cols =
     Inr [sample_deal (S ''Acme'') (S ''Open'') NaN None] \<and>
   \<not> feq (weighted_value (sample_deal (S ''Acme'') (S ''Open'') NaN None))
      (fmul (deal_value (sample_deal (S ''Acme'') (S ''Open'') NaN None))
         (probability (sample_deal (S ''Acme'') (S ''Open'') NaN None)))"
  by (simp add: clean_deals_df_def build_nan sample_deal_def feq_def fmul_def)

text \<open>
  C7, amended.  In every deal record the cleaning pipeline emits, \<^verbatim>\<open>weighted_value\<close> is
  the float product of the record's own \<^verbatim>\<open>deal_value\<close> and \<^verbatim>\<open>probability\<close>: no path
  sets it otherwise.  The comparison \<^verbatim>\<open>weighted_value == deal_value * probability\<close> is
  true exactly when that product is a number, that is unless \<^verbatim>\<open>deal_value\<close> is a NaN, or
  is an infinity while \<^verbatim>\<open>probability\<close> is 0.
\<close>

theorem weighted_value_is_product:
  "clean_deals_df L raw_items cols = Inr ds \<Longrightarrow> d \<in> set ds \<Longrightarrow>
   weighted_value d = fmul (deal_value d) (probability d) \<and>
   (feq (weighted_value d) (fmul (deal_value d) (probability d)) \<longleftrightarrow>
      \<not> (deal_value d = NaN \<or> (deal_value d \<in> {PInf, NInf} \<and> probability d = Fin 0)))"
proof -
  assume "clean_deals_df L raw_items cols = Inr ds" "d \<in> set ds"
  then obtain it where it: "build_deal L cols it = Inr (Some d)"
    by (auto simp add: clean_deals_df_def split: if_splits dest!: collect_set)
  from it have w: "weighted_value d = fmul (deal_value d) (probability d)"
    by (rule build_deal_weighted)
  from it have "probability d \<in> {Fin (rnd (4 / 5)), Fin (1 / 2), Fin (1 / 4), Fin 0}"
    by (rule build_deal_probability)
  then have "fmul (deal_value d) (probability d) = NaN \<longleftrightarrow>
      deal_value d = NaN \<or> (deal_value d \<in> {PInf, NInf} \<and> probability d = Fin 0)"
    by (rule fmul_nan)
  with w show ?thesis by (simp add: feq_def)
qed

theorem weighted_value_is_product_witness:
  "clean_deals_df bare_lib [gain_item] deal_cols = Inr [acme_deal] \<and>
   deal_value acme_deal = Fin 10000 \<and> probability acme_deal = Fin (rnd (4 / 5)) \<and>
   weighted_value acme_deal = Fin 8000 \<and>
   weighted_value acme_deal = fmul (deal_value acme_deal) (probability acme_deal) \<and>
   feq (weighted_value acme_deal) (fmul (deal_value acme_deal) (probability acme_deal))"
proof -
  have v: "deal_value acme_deal = Fin 10000" "probability acme_deal = Fin (rnd (4 / 5))"
    "weighted_value acme_deal = Fin 8000"
    by (simp_all add: acme_deal_def)
  have inst: "weighted_value acme_deal = fmul (deal_value acme_deal) (probability acme_deal) \<and>
      (feq (weighted_value acme_deal) (fmul (deal_value acme_deal) (probability acme_deal)) \<longleftrightarrow>
         \<not> (deal_value acme_deal = NaN \<or>
            (deal_value acme_deal \<in> {PInf, NInf} \<and> probability acme_deal = Fin 0)))"
    by (rule weighted_value_is_product [OF clean_gain]) simp
  have "\<not> (deal_value acme_deal = NaN \<or>
            (deal_value acme_deal \<in> {PInf, NInf} \<and> probability acme_deal = Fin 0))"
    by (simp add: v)
  with inst clean_gain v show ?thesis by blast
qed

section \<open>Items dropped by the builders\<close>

text \<open>
  C9.  The claim is that both builders drop an item whose name is the header text, as
  \<open>deal name\<close>.  The deals builder does, with the comment that it skips header-like rows;
  the work-order builder tests the empty name only: an item named \<open>deal name\<close> gives a
  work-order record of that name.
\<close>

theorem header_kept_by_workorders:
  "build_deal bare_lib [] header_item = Inr None \<and>
   clean_deals_df bare_lib [header_item] [] = Inr [] \<and>
   clean_workorders_df bare_lib [header_item] [] =
     Inr [sample_workorder (S ''deal name'') (S ''deal name'') (Fin 0)]"
proof -
  have dropped: "build_deal bare_lib [] header_item = Inr None"
    by (simp add: build_deal_dropped item_names) (simp add: text_defs)
  have name: "strip (item_get header_item (S ''_item_name'')) = S ''deal name''"
    using item_names(1) by (simp add: item_name_def)
  have ne: "S ''deal name'' \<noteq> []" by (simp add: S_def)
  have zero: "py_max (Fin 0) (fsub (Fin 0) (Fin 0)) = Fin 0"
    by (simp add: py_max_def fsub_def fadd_def fin_zero)
  have kept: "build_workorder bare_lib [] header_item =
      Inr (Some (sample_workorder (S ''deal name'') (S ''deal name'') (Fin 0)))"
    unfolding build_workorder_def Let_def name
    using ne survey_parts(3,6) zero
    by (simp add: find_column_def strip_Nil normalize_revenue_empty normalize_date_empty
        normalize_text_empty ebind_def bare_lib_to_datetime text_or_def truthy_def sample_workorder_def)
  from dropped kept show ?thesis by (simp add: clean_workorders_df_def clean_deals_df_def)
qed

section \<open>The caveats section of the leadership report\<close>

lemma caveat_keys:
  "S ''deals_missing_close_date_pct'' \<noteq> S ''deals_missing_revenue_pct''"
  "S ''deals_missing_close_date_pct'' \<noteq> S ''deals_missing_sector_pct''"
  "S ''deals_missing_close_date_pct'' \<noteq> S ''wo_missing_amount_pct''"
  by (simp_all add: S_def)

lemma late_dates_exceeds:
  "exceeds late_dates (S ''deals_missing_close_date_pct'') 20"
  "\<not> exceeds late_dates (S ''deals_missing_revenue_pct'') 10"
  "\<not> exceeds late_dates (S ''deals_missing_sector_pct'') 10"
  "\<not> exceeds late_dates (S ''wo_missing_amount_pct'') 10"
  using caveat_keys by (simp_all add: exceeds_def caveat_get_def late_dates_def)

lemma exceeds_empty: "0 \<le> limit \<Longrightarrow> \<not> exceeds [] k limit"
  by (simp add: exceeds_def caveat_get_def)

lemma caveat_lines_rule:
  "caveat_lines L c \<noteq> [] \<longleftrightarrow>
     exceeds c (S ''deals_missing_revenue_pct'') 10 \<or> exceeds c (S ''deals_missing_sector_pct'') 10 \<or>
     exceeds c (S ''deals_missing_close_date_pct'') 20 \<or> exceeds c (S ''wo_missing_amount_pct'') 10"
  by (simp add: caveat_lines_def)

lemma caveats_section_rule:
  "caveats_section L dq \<noteq> [] \<longleftrightarrow>
     exceeds dq (S ''deals_missing_revenue_pct'') 10 \<or> exceeds dq (S ''deals_missing_sector_pct'') 10 \<or>
     exceeds dq (S ''wo_missing_amount_pct'') 10"
  by (cases "dq = []") (auto simp add: caveats_section_def report_notes_def exceeds_empty)

text \<open>
  C5.  The claim is that the rendered leadership report has a caveats section exactly when
  one of four signals exceeds its threshold, the share of deals without a close date
  (over 20) among them.  \<^verbatim>\<open>format_leadership_update\<close> tests three signals only, where
  \<^verbatim>\<open>format_caveats_text\<close> tests all four: with half of the deals missing a close date and
  nothing else wrong, \<^verbatim>\<open>format_caveats_text\<close> gives a warning line, and the report has
  no caveats section and is the report rendered for an empty caveats dictionary.
\<close>

theorem report_misses_close_dates:
  "exceeds late_dates (S ''deals_missing_close_date_pct'') 20 \<and>
   caveat_lines L late_dates \<noteq> [] \<and>
   caveats_section L late_dates = [] \<and>
   format_leadership_update L (u\<lparr>data_quality := late_dates\<rparr>) =
     format_leadership_update L (u\<lparr>data_quality := []\<rparr>)"
proof -
  have sec: "caveats_section L late_dates = []"
    using caveats_section_rule [of L late_dates] late_dates_exceeds by simp
  have emp: "caveats_section L [] = []" by (simp add: caveats_section_def)
  have lines: "caveat_lines L late_dates \<noteq> []"
    using late_dates_exceeds by (simp add: caveat_lines_def)
  show ?thesis
    using sec emp lines late_dates_exceeds(1)
    by (simp add: format_leadership_update_def report_lines_def)
qed

section \<open>The revenue rollup\<close>

lemma status_tokens: "S ''Won'' \<noteq> S ''Open''" "S ''Open'' \<noteq> S ''Won''" "S ''Dead'' \<noteq> S ''Won''"
  "S ''Dead'' \<noteq> S ''Open''"
  by (simp_all add: S_def)

text \<open>
  C6.  The revenue rollup returns the error dictionary if and only if the deals frame it
  is given is empty; for a frame that is not empty and whose Won rows, after the period
  filter when a period is given, are none, it returns the zero-valued dictionary:
  \<^verbatim>\<open>closed_total\<close> 0, \<^verbatim>\<open>count\<close> 0 and empty breakdowns.
\<close>

theorem revenue_error_rule:
  "((\<exists>msg. revenue_analytics L today deals_df period = Revenue_error msg) \<longleftrightarrow> deals_df = []) \<and>
   (deals_df \<noteq> [] \<and>
    (if period_truthy period
     then filter_by_period today (filter (\<lambda>d. status d = S ''Won'') deals_df) close_date period
     else filter (\<lambda>d. status d = S ''Won'') deals_df) = [] \<longrightarrow>
    (\<exists>z. revenue_analytics L today deals_df period = Revenue_none z \<and>
         none_closed_total z = Whole 0 \<and> none_count z = 0 \<and> none_by_sector z = [] \<and> none_by_month z = []))"
  by (auto simp add: revenue_analytics_def Let_def)


theorem revenue_error_rule_witness:
  "revenue_analytics bare_lib today0 [] None = Revenue_error (S ''No deals data available.'') \<and>
   open_deals_only \<noteq> [] \<and>
   (\<exists>z. revenue_analytics bare_lib today0 open_deals_only (Some (S ''ytd'')) = Revenue_none z \<and>
        none_closed_total z = Whole 0 \<and> none_count z = 0 \<and> none_by_sector z = [] \<and> none_by_month z = [])"
proof -
  have won: "filter (\<lambda>d. status d = S ''Won'') open_deals_only = []"
    using status_tokens by (simp add: open_deals_only_def sample_deal_def)
  have ne: "open_deals_only \<noteq> []" by (simp add: open_deals_only_def)
  have err: "revenue_analytics bare_lib today0 [] None = Revenue_error (S ''No deals data available.'')"
    by (simp add: revenue_analytics_def)
  from revenue_error_rule [of bare_lib today0 open_deals_only "Some (S ''ytd'')"] won ne err
  show ?thesis by (simp add: filter_by_period_def)
qed

section \<open>The cross-board rollup\<close>

lemma status_set: "status d \<in> {S ''Open'', S ''Won''} \<longleftrightarrow> status d = S ''Open'' \<or> status d = S ''Won''"
  by simp

lemma card_matched:
  "card (matched L deals_df workorders_df) =
     length (remdups (filter (\<lambda>n. n \<in> set (map (\<lambda>w. name_norm L (deal_name_linked w)) workorders_df))
        (map (\<lambda>d. name_norm L (deal_name d)) (won_deals deals_df))))"
proof -
  have "matched L deals_df workorders_df =
      set (filter (\<lambda>n. n \<in> set (map (\<lambda>w. name_norm L (deal_name_linked w)) workorders_df))
        (map (\<lambda>d. name_norm L (deal_name d)) (won_deals deals_df)))"
    by (auto simp add: matched_def)
  then show ?thesis by (simp add: length_remdups_card_conv)
qed

text \<open>
  When the normalised names of the Won deals are distinct, the number of matched names
  is the number of Won deals whose normalised name is among the work orders' names.
\<close>

lemma matched_distinct:
  assumes "distinct (map (\<lambda>d. name_norm L (deal_name d)) (won_deals deals_df))"
  shows "card (matched L deals_df workorders_df) =
     length (filter (\<lambda>d. name_norm L (deal_name d) \<in>
                set (map (\<lambda>w. name_norm L (deal_name_linked w)) workorders_df)) (won_deals deals_df))"
proof -
  define P where "P = (\<lambda>n. n \<in> set (map (\<lambda>w. name_norm L (deal_name_linked w)) workorders_df))"
  define f where "f = (\<lambda>d :: deal. name_norm L (deal_name d))"
  have "filter P (map f (won_deals deals_df)) = map f (filter (\<lambda>d. P (f d)) (won_deals deals_df))"
    by (simp add: filter_map comp_def)
  moreover from assms have "distinct (map f (filter (\<lambda>d. P (f d)) (won_deals deals_df)))"
    unfolding f_def by (rule distinct_map_filter)
  ultimately have "length (remdups (filter P (map f (won_deals deals_df)))) =
      length (filter (\<lambda>d. P (f d)) (won_deals deals_df))"
    by (simp add: distinct_remdups_id)
  then show ?thesis unfolding card_matched P_def f_def .
qed

lemma realization_rate_zero:
  "won_value L deals_df k = Fin 0 \<Longrightarrow> realization_rate L deals_df workorders_df k = Fin 0"
  by (simp add: realization_rate_def series_round1_zero)

text \<open>
  What the rollup returns for sets that are not empty: the win rate, the coverage rate
  over the distinct matched names, a row for every sector, and a realization rate of 0
  where the won-pipeline value is 0.  Nothing raises.
\<close>

lemma cross_found:
  assumes "deals_df \<noteq> []" "workorders_df \<noteq> []"
  shows "\<exists>r. cross_board_analysis L deals_df workorders_df = Cross_found r \<and>
      conversion_rate_pct r =
        (if length (filter (\<lambda>d. status d \<in> {S ''Open'', S ''Won''}) deals_df) = 0 then Whole 0
         else Flt (round1 (fin (of_nat (100 * length (won_deals deals_df)) /
                 of_nat (length (filter (\<lambda>d. status d \<in> {S ''Open'', S ''Won''}) deals_df)))))) \<and>
      wo_coverage_rate_pct r =
        (if length (won_deals deals_df) = 0 then Whole 0
         else Flt (round1 (fin (of_nat (100 * card (matched L deals_df workorders_df)) /
                 of_nat (length (won_deals deals_df)))))) \<and>
      (\<forall>k \<in> set (map sector (won_deals deals_df)) \<union> set (map wo_sector workorders_df).
         \<exists>row. sector_performance r k = Some row) \<and>
      (\<forall>k row. sector_performance r k = Some row \<and> won_value L deals_df k = Fin 0 \<longrightarrow>
         realization_rate_pct row = Fin 0)"
  using assms
  by (auto simp add: cross_board_analysis_def Let_def realization_rate_zero split: if_splits)

lemma name_norms:
  "name_norm bare_lib (S ''Acme'') = S ''acme''" "name_norm bare_lib (S ''acme'') = S ''acme''"
  "name_norm bare_lib (S ''ACME'') = S ''acme''"
  by (simp_all add: name_norm_def bare_lib_lower text_defs)

lemma twin_won: "won_deals twin_deals = twin_deals" "length twin_deals = 2"
  by (simp_all add: won_deals_def twin_deals_def sample_deal_def)

lemma twin_matched: "matched bare_lib twin_deals acme_orders = {S ''acme''}"
  by (simp add: matched_def twin_won) (simp add: twin_deals_def acme_orders_def sample_deal_def
      sample_workorder_def name_norms)

text \<open>
  C8.  The claim is that the coverage rate is 100 times the number of Won deals whose
  normalised name is among the work orders' normalised linked names, over the number of
  Won deals, which is what the comment of the code announces (Won deals that have a
  matching work order).  With two Won deals, Acme and ACME, and one work order linked to
  \<open>acme\<close>, both Won deals have their name among the work orders' names, so the claim
  gives 100 * 2 / 2 = 100; the rollup returns 50: its numerator is the number of distinct
  matched names, one here, where its denominator counts the deals.
\<close>

theorem twin_deals_coverage:
  "(case cross_board_analysis bare_lib twin_deals acme_orders of
      Cross_found r \<Rightarrow> wo_coverage_rate_pct r | Cross_error msg \<Rightarrow> Whole 0) = Flt (Fin 50) \<and>
   length (filter (\<lambda>d. name_norm bare_lib (deal_name d) \<in>
              set (map (\<lambda>w. name_norm bare_lib (deal_name_linked w)) acme_orders))
      (filter (\<lambda>d. status d = S ''Won'') twin_deals)) = 2 \<and>
   length (filter (\<lambda>d. status d = S ''Won'') twin_deals) = 2"
proof -
  have ne: "twin_deals \<noteq> []" "acme_orders \<noteq> []"
    by (simp_all add: twin_deals_def acme_orders_def)
  from cross_found [OF ne, of bare_lib] obtain r where
    r: "cross_board_analysis bare_lib twin_deals acme_orders = Cross_found r"
    and c: "wo_coverage_rate_pct r =
        (if length (won_deals twin_deals) = 0 then Whole 0
         else Flt (round1 (fin (of_nat (100 * card (matched bare_lib twin_deals acme_orders)) /
                 of_nat (length (won_deals twin_deals))))))"
    by blast
  from c have "wo_coverage_rate_pct r = Flt (Fin 50)"
    by (simp add: twin_won twin_matched fin_samples round1_samples del: round1.simps)
  moreover have won: "filter (\<lambda>d. status d = S ''Won'') twin_deals = twin_deals"
    using twin_won(1) by (simp add: won_deals_def)
  moreover have "length (filter (\<lambda>d. name_norm bare_lib (deal_name d) \<in>
              set (map (\<lambda>w. name_norm bare_lib (deal_name_linked w)) acme_orders)) twin_deals) = 2"
    by (simp add: twin_deals_def acme_orders_def sample_deal_def sample_workorder_def name_norms)
  ultimately show ?thesis using r by (simp add: twin_won)
qed

section \<open>Work orders without a linked deal name\<close>

text \<open>
  C10.  When the resolved linked-deal-name value of a work-order item is empty or missing,
  the record built has \<^verbatim>\<open>deal_name_linked\<close> equal to its own \<^verbatim>\<open>wo_name\<close>, the stripped
  item name, which is not empty.  Such a work order counts toward the coverage rate
  whenever its name equals the name of a Won deal after stripping and lower-casing: the
  common normalised name is among the names that are both a normalised name of a Won deal
  and a normalised linked name of a work order; the coverage rate the rollup returns is
  100 times the number of those names over the number of Won deals, rounded to one
  decimal; and when no other work order has that normalised linked name, the number is
  one more than it is without this work order.
\<close>

theorem linked_name_fallback:
  "(build_workorder L cols it = Inr (Some w) \<and> find_column it cols [S ''deal name'', S ''deal''] = [] \<longrightarrow>
      deal_name_linked w = wo_name w \<and> wo_name w = item_name it \<and> wo_name w \<noteq> []) \<and>
   (w \<in> set workorders_df \<and> deal_name_linked w = wo_name w \<and> d \<in> set deals_df \<and>
    status d = S ''Won'' \<and> name_norm L (deal_name d) = name_norm L (wo_name w) \<longrightarrow>
      name_norm L (wo_name w) \<in>
        set (map (\<lambda>d. name_norm L (deal_name d)) (filter (\<lambda>d. status d = S ''Won'') deals_df)) \<inter>
        set (map (\<lambda>v. name_norm L (deal_name_linked v)) workorders_df) \<and>
      (\<exists>r. cross_board_analysis L deals_df workorders_df = Cross_found r \<and>
           wo_coverage_rate_pct r =
             Flt (round1 (fin (of_nat (100 * card
                (set (map (\<lambda>d. name_norm L (deal_name d)) (filter (\<lambda>d. status d = S ''Won'') deals_df)) \<inter>
                 set (map (\<lambda>v. name_norm L (deal_name_linked v)) workorders_df))) /
                of_nat (length (filter (\<lambda>d. status d = S ''Won'') deals_df)))))) \<and>
      ((\<forall>v \<in> set workorders_df. v \<noteq> w \<longrightarrow> name_norm L (deal_name_linked v) \<noteq> name_norm L (wo_name w)) \<longrightarrow>
         card (set (map (\<lambda>d. name_norm L (deal_name d)) (filter (\<lambda>d. status d = S ''Won'') deals_df)) \<inter>
               set (map (\<lambda>v. name_norm L (deal_name_linked v)) workorders_df)) =
         card (set (map (\<lambda>d. name_norm L (deal_name d)) (filter (\<lambda>d. status d = S ''Won'') deals_df)) \<inter>
               set (map (\<lambda>v. name_norm L (deal_name_linked v)) (removeAll w workorders_df))) + 1))"
proof -
  define won where "won = set (map (\<lambda>d. name_norm L (deal_name d)) (filter (\<lambda>d. status d = S ''Won'') deals_df))"
  define names where "names = (\<lambda>ws :: workorder list. set (map (\<lambda>v. name_norm L (deal_name_linked v)) ws))"
  have m: "matched L deals_df workorders_df = won \<inter> names workorders_df"
    by (simp add: matched_def won_deals_def won_def names_def)
  have fin_won: "finite won" by (simp add: won_def)
  have second: "name_norm L (wo_name w) \<in> won \<inter> names workorders_df \<and>
      (\<exists>r. cross_board_analysis L deals_df workorders_df = Cross_found r \<and>
           wo_coverage_rate_pct r =
             Flt (round1 (fin (of_nat (100 * card (won \<inter> names workorders_df)) /
                of_nat (length (filter (\<lambda>d. status d = S ''Won'') deals_df)))))) \<and>
      ((\<forall>v \<in> set workorders_df. v \<noteq> w \<longrightarrow> name_norm L (deal_name_linked v) \<noteq> name_norm L (wo_name w)) \<longrightarrow>
         card (won \<inter> names workorders_df) = card (won \<inter> names (removeAll w workorders_df)) + 1)"
    if a: "w \<in> set workorders_df" "deal_name_linked w = wo_name w" "d \<in> set deals_df"
      "status d = S ''Won''" "name_norm L (deal_name d) = name_norm L (wo_name w)"
  proof -
    from a(3,4) have dw: "d \<in> set (filter (\<lambda>d. status d = S ''Won'') deals_df)" by simp
    then have "name_norm L (deal_name d) \<in> won" unfolding won_def by force
    with a(5) have inw: "name_norm L (wo_name w) \<in> won" by simp
    from a(1,2) have inn: "name_norm L (wo_name w) \<in> names workorders_df"
      unfolding names_def by force
    from a(3,4) have "filter (\<lambda>d. status d = S ''Won'') deals_df \<noteq> []"
      by (auto simp add: filter_empty_conv)
    then have wonlen: "length (filter (\<lambda>d. status d = S ''Won'') deals_df) \<noteq> 0" by simp
    from a(1,3) have ne: "deals_df \<noteq> []" "workorders_df \<noteq> []" by auto
    from cross_found [OF ne, of L] wonlen
    have rate: "\<exists>r. cross_board_analysis L deals_df workorders_df = Cross_found r \<and>
           wo_coverage_rate_pct r =
             Flt (round1 (fin (of_nat (100 * card (won \<inter> names workorders_df)) /
                of_nat (length (filter (\<lambda>d. status d = S ''Won'') deals_df)))))"
      unfolding m won_deals_def by auto
    have one: "card (won \<inter> names workorders_df) = card (won \<inter> names (removeAll w workorders_df)) + 1"
      if only: "\<forall>v \<in> set workorders_df. v \<noteq> w \<longrightarrow> name_norm L (deal_name_linked v) \<noteq> name_norm L (wo_name w)"
    proof -
      from a(1) have "set workorders_df = insert w (set workorders_df - {w})" by auto
      then have "(\<lambda>v. name_norm L (deal_name_linked v)) ` set workorders_df =
          insert (name_norm L (deal_name_linked w))
            ((\<lambda>v. name_norm L (deal_name_linked v)) ` (set workorders_df - {w}))"
        by (metis image_insert)
      with a(2) have split:
        "names workorders_df = insert (name_norm L (wo_name w)) (names (removeAll w workorders_df))"
        by (simp add: names_def)
      from only have out: "name_norm L (wo_name w) \<notin> names (removeAll w workorders_df)"
        unfolding names_def by auto
      from inw have "won \<inter> names workorders_df =
          insert (name_norm L (wo_name w)) (won \<inter> names (removeAll w workorders_df))"
        unfolding split by auto
      moreover have "finite (won \<inter> names (removeAll w workorders_df))" using fin_won by simp
      moreover from out have "name_norm L (wo_name w) \<notin> won \<inter> names (removeAll w workorders_df)" by simp
      ultimately show ?thesis by simp
    qed
    from inw inn rate one show ?thesis by blast
  qed
  show ?thesis
    using build_workorder_linked [of L cols it w] second
    unfolding won_def names_def by blast
qed

theorem linked_name_fallback_witness:
  "build_workorder bare_lib wo_cols survey_item = Inr (Some acme_workorder) \<and>
   find_column survey_item wo_cols [S ''deal name'', S ''deal''] = [] \<and>
   deal_name_linked acme_workorder = wo_name acme_workorder \<and>
   wo_name acme_workorder = S ''ACME'' \<and> deal_name acme_deal = S ''Acme'' \<and>
   status acme_deal = S ''Won'' \<and>
   name_norm bare_lib (deal_name acme_deal) = name_norm bare_lib (wo_name acme_workorder) \<and>
   (\<exists>r. cross_board_analysis bare_lib [acme_deal] [acme_workorder] = Cross_found r \<and>
        wo_coverage_rate_pct r = Flt (Fin 100)) \<and>
   card (set (map (\<lambda>d. name_norm bare_lib (deal_name d)) (filter (\<lambda>d. status d = S ''Won'') [acme_deal])) \<inter>
         set (map (\<lambda>v. name_norm bare_lib (deal_name_linked v)) [acme_workorder])) = 1"
proof -
  have n: "name_norm bare_lib (deal_name acme_deal) = S ''acme''"
    "name_norm bare_lib (wo_name acme_workorder) = S ''acme''"
    "name_norm bare_lib (deal_name_linked acme_workorder) = S ''acme''"
    by (simp_all add: acme_deal_def acme_workorder_def name_norms)
  have l: "deal_name_linked acme_workorder = wo_name acme_workorder" "status acme_deal = S ''Won''"
    "wo_name acme_workorder = S ''ACME''" "deal_name acme_deal = S ''Acme''"
    by (simp_all add: acme_deal_def acme_workorder_def)
  have c: "card (set (map (\<lambda>d. name_norm bare_lib (deal_name d)) (filter (\<lambda>d. status d = S ''Won'') [acme_deal])) \<inter>
         set (map (\<lambda>v. name_norm bare_lib (deal_name_linked v)) [acme_workorder])) = 1"
    by (simp add: l name_norms)
  have f: "filter (\<lambda>d. status d = S ''Won'') [acme_deal] = [acme_deal]" by (simp add: l)
  from linked_name_fallback [of bare_lib wo_cols survey_item acme_workorder "[acme_workorder]"
      acme_deal "[acme_deal]"] l n
  have "\<exists>r. cross_board_analysis bare_lib [acme_deal] [acme_workorder] = Cross_found r \<and>
        wo_coverage_rate_pct r = Flt (Fin 100)"
    unfolding c f by (simp add: fin_samples round1_samples del: round1.simps)
  with build_survey survey_columns(1) n l c show ?thesis by simp
qed

end
